theory Spec2Isabelle
  imports Complex_Main "HOL-Library.Word"
begin

section \<open>JavaScript values used by the analysers\<close>

text \<open>
  A JavaScript number is modelled by an integer or \<open>NaN\<close>. Every number the analysers
  compute is a quotient of millisecond counts, rounded by \<open>Math.ceil\<close> or
  \<open>Math.floor\<close>; for time values of this magnitude (less than \<open>2 ^ 26\<close> days apart) the
  double-precision quotient lies on the same side of every integer as the exact one, so
  integer arithmetic gives the same result. \<open>Infinity\<close> only appears in the
  \<open>catch\<close> block of \<open>analyzeCardExpiration\<close>, which no string, null or undefined
  argument reaches (none of the calls in the \<open>try\<close> block throws on such an argument).
\<close>

datatype number = Num int | NaN

text \<open>\<open>a < b\<close> and \<open>a <= b\<close> with a numeric literal on the right: false on \<open>NaN\<close>.\<close>

fun num_lt :: "number \<Rightarrow> int \<Rightarrow> bool" where
  "num_lt (Num a) b = (a < b)"
| "num_lt NaN b = False"

fun num_le :: "number \<Rightarrow> int \<Rightarrow> bool" where
  "num_le (Num a) b = (a \<le> b)"
| "num_le NaN b = False"

fun num_add :: "number \<Rightarrow> number \<Rightarrow> number" where
  "num_add (Num a) (Num b) = Num (a + b)"
| "num_add _ _ = NaN"

fun num_sub :: "number \<Rightarrow> number \<Rightarrow> number" where
  "num_sub (Num a) (Num b) = Num (a - b)"
| "num_sub _ _ = NaN"

text \<open>\<open>Math.ceil(a / d)\<close> and \<open>Math.floor(a / d)\<close> for a positive integer constant \<open>d\<close>.\<close>

fun ceil_quot :: "number \<Rightarrow> int \<Rightarrow> number" where
  "ceil_quot (Num a) d = Num (- ((- a) div d))"
| "ceil_quot NaN d = NaN"

fun floor_quot :: "number \<Rightarrow> int \<Rightarrow> number" where
  "floor_quot (Num a) d = Num (a div d)"
| "floor_quot NaN d = NaN"

subsection \<open>Strings\<close>

text \<open>
  A JavaScript string is its sequence of UTF-16 code units; \<open>length\<close> counts code units.
  \<open>str\<close> writes an ASCII literal.
\<close>

type_synonym jsstring = "16 word list"

definition str :: "string \<Rightarrow> jsstring" where
  "str s = map (\<lambda>c. of_nat (of_char c)) s"

text \<open>\<open>s.substring(i, j)\<close> for \<open>0 \<le> i \<le> j\<close>.\<close>

definition substring :: "jsstring \<Rightarrow> nat \<Rightarrow> nat \<Rightarrow> jsstring" where
  "substring s i j = take (j - i) (drop i s)"

text \<open>
  The code units that \<open>parseInt\<close> and \<open>trim\<close> skip: the white space and line terminator
  code points of ECMAScript (TAB, LF, VT, FF, CR, SP, NBSP, the Unicode space separators,
  LS, PS and the byte order mark).
\<close>

definition isWhiteSpace :: "16 word \<Rightarrow> bool" where
  "isWhiteSpace u \<longleftrightarrow>
     u = 0x09 \<or> u = 0x0A \<or> u = 0x0B \<or> u = 0x0C \<or> u = 0x0D \<or> u = 0x20 \<or> u = 0xA0
     \<or> u = 0x1680 \<or> (0x2000 \<le> u \<and> u \<le> 0x200A) \<or> u = 0x2028 \<or> u = 0x2029
     \<or> u = 0x202F \<or> u = 0x205F \<or> u = 0x3000 \<or> u = 0xFEFF"

definition trim :: "jsstring \<Rightarrow> jsstring" where
  "trim s = rev (dropWhile isWhiteSpace (rev (dropWhile isWhiteSpace s)))"

definition isDigit :: "16 word \<Rightarrow> bool" where
  "isDigit u \<longleftrightarrow> 0x30 \<le> u \<and> u \<le> 0x39"

definition digitValue :: "16 word \<Rightarrow> int" where
  "digitValue u = uint u - 48"

text \<open>
  \<open>parseInt(s, 10)\<close>: skip leading white space, read an optional sign, then the longest
  run of decimal digits; \<open>NaN\<close> when that run is empty. Whatever follows the digits is
  ignored. (The sign of a zero is not represented.)
\<close>

definition digitsValue :: "jsstring \<Rightarrow> int" where
  "digitsValue ds = foldl (\<lambda>acc u. 10 * acc + digitValue u) 0 ds"

definition parseDigits :: "jsstring \<Rightarrow> int option" where
  "parseDigits s =
     (let z = takeWhile isDigit s in if z = [] then None else Some (digitsValue z))"

definition parseInt10 :: "jsstring \<Rightarrow> number" where
  "parseInt10 input =
     (let s = dropWhile isWhiteSpace input;
          negative = (s \<noteq> [] \<and> hd s = 0x2D);
          s' = (if s \<noteq> [] \<and> (hd s = 0x2B \<or> hd s = 0x2D) then tl s else s)
      in case parseDigits s' of
           None \<Rightarrow> NaN
         | Some n \<Rightarrow> Num (if negative then - n else n))"

text \<open>
  \<open>parseInt(s)\<close> without a radix, as the \<open>/api/customers\<close> loader calls it: the same,
  except that digits after a prefix \<open>0x\<close> or \<open>0X\<close> are read in base 16.
\<close>

definition isHexDigit :: "16 word \<Rightarrow> bool" where
  "isHexDigit u \<longleftrightarrow> isDigit u \<or> (0x41 \<le> u \<and> u \<le> 0x46) \<or> (0x61 \<le> u \<and> u \<le> 0x66)"

definition hexDigitValue :: "16 word \<Rightarrow> int" where
  "hexDigitValue u =
     (if isDigit u then uint u - 48
      else if 0x41 \<le> u \<and> u \<le> 0x46 then uint u - 55
      else uint u - 87)"

definition parseHexDigits :: "jsstring \<Rightarrow> int option" where
  "parseHexDigits s =
     (let z = takeWhile isHexDigit s
      in if z = [] then None
         else Some (foldl (\<lambda>acc u. 16 * acc + hexDigitValue u) 0 z))"

definition parseIntAuto :: "jsstring \<Rightarrow> number" where
  "parseIntAuto input =
     (let s = dropWhile isWhiteSpace input;
          negative = (s \<noteq> [] \<and> hd s = 0x2D);
          s' = (if s \<noteq> [] \<and> (hd s = 0x2B \<or> hd s = 0x2D) then tl s else s);
          hex = (length s' \<ge> 2 \<and> s' ! 0 = 0x30 \<and> (s' ! 1 = 0x78 \<or> s' ! 1 = 0x58))
      in case (if hex then parseHexDigits (drop 2 s') else parseDigits s') of
           None \<Rightarrow> NaN
         | Some n \<Rightarrow> Num (if negative then - n else n))"

subsection \<open>Dates\<close>

text \<open>
  A \<open>Date\<close> object is modelled by its time value: milliseconds since the epoch in UTC,
  or \<open>NaN\<close> for an invalid date. The day and year arithmetic is that of ECMAScript
  (\<open>DayFromYear\<close>, \<open>InLeapYear\<close>, \<open>MonthFromTime\<close>, \<open>DateFromTime\<close>, \<open>MakeDay\<close>,
  \<open>TimeClip\<close>). Local time is UTC plus a fixed offset \<open>tz\<close> in milliseconds, a parameter
  of every function that builds or reads a local date; daylight-saving changes of the
  offset are not modelled.
\<close>

type_synonym Date = number

definition msPerDay :: int where
  "msPerDay = 1000 * 3600 * 24"

definition inLeapYear :: "int \<Rightarrow> bool" where
  "inLeapYear y \<longleftrightarrow> (y mod 4 = 0 \<and> y mod 100 \<noteq> 0) \<or> y mod 400 = 0"

definition daysInYear :: "int \<Rightarrow> int" where
  "daysInYear y = (if inLeapYear y then 366 else 365)"

definition dayFromYear :: "int \<Rightarrow> int" where
  "dayFromYear y =
     365 * (y - 1970) + (y - 1969) div 4 - (y - 1901) div 100 + (y - 1601) div 400"

text \<open>
  \<open>YearFromTime\<close>: the largest year whose first day is not after the given day, found
  by walking down from an estimate until the year starts on or before the day, then up
  while the next year does too.
\<close>

function yearDown :: "int \<Rightarrow> int \<Rightarrow> int" where
  "yearDown y d = (if d < dayFromYear y then yearDown (y - 1) d else y)"
  by pat_completeness auto
termination
proof (relation "measure (\<lambda>(y, d). nat (dayFromYear y - d))")
  show "wf (measure (\<lambda>(y, d). nat (dayFromYear y - d)))" by simp
next
  fix y d :: int
  assume below: "d < dayFromYear y"
  have step: "365 * (y - 1 - 1970) + p' - q' + r' < 365 * (y - 1970) + p - q + r"
    if "p' \<le> p" "q \<le> q' + 1" "r' \<le> r" for p q r p' q' r' :: int
    using that by arith
  have "dayFromYear (y - 1) < dayFromYear y"
    unfolding dayFromYear_def by (rule step) linarith+
  with below show "((y - 1, d), (y, d)) \<in> measure (\<lambda>(y, d). nat (dayFromYear y - d))"
    by simp
qed

function yearUp :: "int \<Rightarrow> int \<Rightarrow> int" where
  "yearUp y d = (if dayFromYear (y + 1) \<le> d then yearUp (y + 1) d else y)"
  by pat_completeness auto
termination
proof (relation "measure (\<lambda>(y, d). nat (d + 1 - dayFromYear (y + 1)))")
  show "wf (measure (\<lambda>(y, d). nat (d + 1 - dayFromYear (y + 1))))" by simp
next
  fix y d :: int
  assume reached: "dayFromYear (y + 1) \<le> d"
  have step: "365 * (y + 1 - 1970) + p - q + r < 365 * (y + 1 + 1 - 1970) + p' - q' + r'"
    if "p \<le> p'" "q' \<le> q + 1" "r \<le> r'" for p q r p' q' r' :: int
    using that by arith
  have "dayFromYear (y + 1) < dayFromYear (y + 1 + 1)"
    unfolding dayFromYear_def by (rule step) linarith+
  with reached
  show "((y + 1, d), (y, d)) \<in> measure (\<lambda>(y, d). nat (d + 1 - dayFromYear (y + 1)))"
    by simp
qed

declare yearDown.simps [simp del] yearUp.simps [simp del]

definition yearFromDay :: "int \<Rightarrow> int" where
  "yearFromDay d = yearUp (yearDown (1970 + d div 365) d) d"

definition dayWithinYear :: "int \<Rightarrow> int" where
  "dayWithinYear d = d - dayFromYear (yearFromDay d)"

text \<open>
  The day within the year on which month \<open>m\<close> (0 for January) starts; \<open>monthStart 12\<close> is
  the length of the year. These are the bounds of the table of \<open>MonthFromTime\<close>.
\<close>

definition monthStart :: "int \<Rightarrow> bool \<Rightarrow> int" where
  "monthStart m leap =
     (let l = (if leap then 1 else 0) in
      if m = 0 then 0 else if m = 1 then 31 else if m = 2 then 59 + l
      else if m = 3 then 90 + l else if m = 4 then 120 + l else if m = 5 then 151 + l
      else if m = 6 then 181 + l else if m = 7 then 212 + l else if m = 8 then 243 + l
      else if m = 9 then 273 + l else if m = 10 then 304 + l else if m = 11 then 334 + l
      else 365 + l)"

definition monthFromDay :: "int \<Rightarrow> int" where
  "monthFromDay d =
     (let w = dayWithinYear d; leap = inLeapYear (yearFromDay d) in
      if w < monthStart 1 leap then 0 else if w < monthStart 2 leap then 1
      else if w < monthStart 3 leap then 2 else if w < monthStart 4 leap then 3
      else if w < monthStart 5 leap then 4 else if w < monthStart 6 leap then 5
      else if w < monthStart 7 leap then 6 else if w < monthStart 8 leap then 7
      else if w < monthStart 9 leap then 8 else if w < monthStart 10 leap then 9
      else if w < monthStart 11 leap then 10 else 11)"

definition dateFromDay :: "int \<Rightarrow> int" where
  "dateFromDay d =
     dayWithinYear d - monthStart (monthFromDay d) (inLeapYear (yearFromDay d)) + 1"

text \<open>
  \<open>MakeDay(year, month, date)\<close>: months outside 0..11 carry into the year, and the day of
  the month is an offset from the first of the month, so day 0 is the last day of the
  month before.
\<close>

definition makeDay :: "int \<Rightarrow> int \<Rightarrow> int \<Rightarrow> int" where
  "makeDay year month date =
     (let ym = year + month div 12; mn = month mod 12
      in dayFromYear ym + monthStart mn (inLeapYear ym) + date - 1)"

definition timeClip :: "int \<Rightarrow> number" where
  "timeClip t = (if \<bar>t\<bar> \<le> 8640000000000000 then Num t else NaN)"

text \<open>
  \<open>new Date(year, month, date)\<close>: local midnight of that day. A year from 0 to 99 means
  1900 plus that year.
\<close>

fun newDate :: "int \<Rightarrow> number \<Rightarrow> number \<Rightarrow> number \<Rightarrow> Date" where
  "newDate tz (Num y) (Num m) (Num dt) =
     (let yr = (if 0 \<le> y \<and> y \<le> 99 then 1900 + y else y)
      in timeClip (makeDay yr m dt * msPerDay - tz))"
| "newDate tz _ _ _ = NaN"

text \<open>\<open>new Date(value)\<close> for a numeric time value.\<close>

definition newDateOfValue :: "int \<Rightarrow> Date" where
  "newDateOfValue v = timeClip v"

fun getDate :: "int \<Rightarrow> Date \<Rightarrow> number" where
  "getDate tz (Num t) = Num (dateFromDay ((t + tz) div msPerDay))"
| "getDate tz NaN = NaN"

fun getMonth :: "int \<Rightarrow> Date \<Rightarrow> number" where
  "getMonth tz (Num t) = Num (monthFromDay ((t + tz) div msPerDay))"
| "getMonth tz NaN = NaN"

fun getFullYear :: "int \<Rightarrow> Date \<Rightarrow> number" where
  "getFullYear tz (Num t) = Num (yearFromDay ((t + tz) div msPerDay))"
| "getFullYear tz NaN = NaN"

definition getTime :: "Date \<Rightarrow> number" where
  "getTime d = d"

section \<open>Card expiration analysis (\<open>card-expiration-analyzer.ts\<close>)\<close>

datatype Status = Expired | ExpiringSoon | ExpiringLater | Valid

text \<open>The warning level \<open>'none'\<close> is written \<open>NoWarning\<close>.\<close>

datatype WarningLevel = Critical | Warning | Info | NoWarning

record ExpirationStatus =
  status :: Status
  daysUntilExpiration :: number
  expirationDate :: Date
  warningLevel :: WarningLevel

text \<open>
  A card as the platform sends it. Its \<open>expirationDate\<close> field, the four-character code,
  is \<open>cardExpirationDate\<close> here; \<open>None\<close> is an absent (null or undefined) field.
\<close>

record CustomerCard =
  cardId :: "jsstring option"
  first6 :: "jsstring option"
  last4 :: "jsstring option"
  cardExpirationDate :: "jsstring option"

record CardAnalysis =
  card :: CustomerCard
  expiration :: ExpirationStatus

text \<open>
  The \<open>cards\<close> field of a customer: a flat array, the platform's nested
  \<open>{elements: [...]}\<close> object, or neither.
\<close>

datatype CardsField = Flat "CustomerCard list" | Nested "CustomerCard list" | NoCards

record Customer =
  customerId :: jsstring
  customerSince :: "int option"
  createdTime :: "int option"
  cards :: CardsField

record CustomerWithExpiration = Customer +
  expirationAnalysis :: "CardAnalysis list"

text \<open>\<open>getLastDayOfMonth\<close> and \<open>parseExpirationDate\<close>; \<open>None\<close> is \<open>null\<close>.\<close>

definition getLastDayOfMonth :: "int \<Rightarrow> number \<Rightarrow> number \<Rightarrow> number" where
  "getLastDayOfMonth tz year month = getDate tz (newDate tz year month (Num 0))"

definition parseExpirationDate :: "int \<Rightarrow> jsstring option \<Rightarrow> Date option" where
  "parseExpirationDate tz code =
     (case code of
        None \<Rightarrow> None
      | Some s \<Rightarrow>
          if s = [] \<or> length s \<noteq> 4 then None
          else
            let month = parseInt10 (substring s 0 2);
                year = num_add (parseInt10 (substring s 2 4)) (Num 2000)
            in Some (newDate tz year (num_sub month (Num 1))
                       (getLastDayOfMonth tz year month)))"

text \<open>\<open>getDaysUntilExpiration\<close>, with the clock reading \<open>now\<close> as a parameter.\<close>

definition getDaysUntilExpiration :: "int \<Rightarrow> Date \<Rightarrow> number" where
  "getDaysUntilExpiration now expDate =
     (let timeDiff = num_sub (getTime expDate) (Num now) in ceil_quot timeDiff msPerDay)"

definition analyzeCardExpiration ::
  "int \<Rightarrow> int \<Rightarrow> jsstring option \<Rightarrow> ExpirationStatus option" where
  "analyzeCardExpiration tz now code =
     (case parseExpirationDate tz code of
        None \<Rightarrow> None
      | Some expDate \<Rightarrow>
          let daysUntil = getDaysUntilExpiration now expDate;
              (st, level) =
                (if num_lt daysUntil 0 then (Expired, Critical)
                 else if num_le daysUntil 30 then (ExpiringSoon, Critical)
                 else if num_le daysUntil 90 then (ExpiringLater, Warning)
                 else (Valid, NoWarning))
          in Some \<lparr>status = st, daysUntilExpiration = daysUntil,
                    expirationDate = expDate, warningLevel = level\<rparr>)"

text \<open>
  \<open>analyzeCustomers\<close>; \<open>analyzeCustomer\<close> and \<open>analyzeCard\<close> are the callbacks of its two
  \<open>map\<close> calls. A card for which \<open>analyzeCardExpiration\<close> returns \<open>null\<close> gets the
  literal fallback record, whose date is \<open>new Date('2099-12-31')\<close>, midnight UTC. The
  clock is read once for the whole population.
\<close>

definition fallbackExpiration :: ExpirationStatus where
  "fallbackExpiration =
     \<lparr>status = Valid, daysUntilExpiration = Num 999999,
      expirationDate = Num 4102358400000, warningLevel = NoWarning\<rparr>"

definition analyzeCard :: "int \<Rightarrow> int \<Rightarrow> CustomerCard \<Rightarrow> CardAnalysis" where
  "analyzeCard tz now c =
     \<lparr>card = c,
      expiration = (case analyzeCardExpiration tz now (cardExpirationDate c) of
                      None \<Rightarrow> fallbackExpiration
                    | Some e \<Rightarrow> e)\<rparr>"

definition analyzeCustomer :: "int \<Rightarrow> int \<Rightarrow> Customer \<Rightarrow> CustomerWithExpiration" where
  "analyzeCustomer tz now customer =
     (let cardList = (case cards customer of
                        Flat cs \<Rightarrow> cs
                      | Nested es \<Rightarrow> es
                      | NoCards \<Rightarrow> [])
      in \<lparr>customerId = customerId customer, customerSince = customerSince customer,
          createdTime = createdTime customer, cards = cards customer,
          expirationAnalysis = map (analyzeCard tz now) cardList\<rparr>)"

definition analyzeCustomers ::
  "int \<Rightarrow> int \<Rightarrow> Customer list \<Rightarrow> CustomerWithExpiration list" where
  "analyzeCustomers tz now customers = map (analyzeCustomer tz now) customers"

definition filterByStatus ::
  "CustomerWithExpiration list \<Rightarrow> Status list \<Rightarrow> CustomerWithExpiration list" where
  "filterByStatus customers statuses =
     filter (\<lambda>customer.
        list_ex (\<lambda>analysis. status (expiration analysis) \<in> set statuses)
          (expirationAnalysis customer)) customers"

definition getExpiredCards :: "CustomerWithExpiration list \<Rightarrow> CustomerWithExpiration list" where
  "getExpiredCards customers = filterByStatus customers [Expired]"

definition getExpiringSoonCards ::
  "CustomerWithExpiration list \<Rightarrow> CustomerWithExpiration list" where
  "getExpiringSoonCards customers = filterByStatus customers [ExpiringSoon]"

definition getExpiringLaterCards ::
  "CustomerWithExpiration list \<Rightarrow> CustomerWithExpiration list" where
  "getExpiringLaterCards customers = filterByStatus customers [ExpiringLater]"

text \<open>
  The summary. The two fields of a status bucket, \<open>customers\<close> and \<open>cards\<close> in the source,
  are \<open>customerCount\<close> and \<open>cardCount\<close>; \<open>bucket\<close> is the expression that builds each of the
  three buckets from its list of flagged customers.
\<close>

record Bucket =
  customerCount :: nat
  cardCount :: nat

record Summary =
  totalCustomers :: nat
  totalCards :: nat
  expired :: Bucket
  expiringSoon :: Bucket
  expiringLater :: Bucket

definition bucket :: "CustomerWithExpiration list \<Rightarrow> Bucket" where
  "bucket flagged =
     \<lparr>customerCount = length flagged,
      cardCount = foldl (\<lambda>sum c. sum + length (expirationAnalysis c)) 0 flagged\<rparr>"

definition generateSummary :: "CustomerWithExpiration list \<Rightarrow> Summary" where
  "generateSummary customers =
     \<lparr>totalCustomers = length customers,
      totalCards = foldl (\<lambda>sum customer.
                      sum + length (case cards customer of Flat cs \<Rightarrow> cs | _ \<Rightarrow> []))
                    0 customers,
      expired = bucket (getExpiredCards customers),
      expiringSoon = bucket (getExpiringSoonCards customers),
      expiringLater = bucket (getExpiringLaterCards customers)\<rparr>"

section \<open>Client status analysis (\<open>ClientStatusAnalyzer\<close>)\<close>

datatype ClientStatusTag = NewNeedsPayment | ExpiredCards | ExpiringCards | AllGood | InactiveOld

datatype Priority = CriticalPriority | HighPriority | MediumPriority | LowPriority | NoPriority

text \<open>The \<open>status\<close> field of a client status is \<open>statusTag\<close>.\<close>

record ClientStatus =
  statusTag :: ClientStatusTag
  priority :: Priority
  daysOld :: number
  hasCards :: bool
  requiresAction :: bool
  actionMessage :: jsstring

text \<open>
  A customer handed to \<open>analyzeCustomersWithStatus\<close> may or may not carry an
  \<open>expirationAnalysis\<close>; the optional field is \<open>optExpirationAnalysis\<close>.
\<close>

record CustomerMaybeAnalysed = Customer +
  optExpirationAnalysis :: "CardAnalysis list option"

record CustomerWithStatus = CustomerMaybeAnalysed +
  clientStatus :: ClientStatus

text \<open>Truthiness of an optional timestamp, and \<open>a || b\<close> on two of them.\<close>

definition truthy :: "int option \<Rightarrow> bool" where
  "truthy v = (case v of None \<Rightarrow> False | Some t \<Rightarrow> t \<noteq> 0)"

definition or_else :: "int option \<Rightarrow> int option \<Rightarrow> int option" where
  "or_else a b = (if truthy a then a else b)"

fun num_gt :: "number \<Rightarrow> int \<Rightarrow> bool" where
  "num_gt (Num a) b = (a > b)"
| "num_gt NaN b = False"

definition getDaysSinceCreated :: "int \<Rightarrow> int \<Rightarrow> number" where
  "getDaysSinceCreated now created =
     (let createdDate = newDateOfValue created;
          timeDiff = num_sub (Num now) (getTime createdDate)
      in floor_quot timeDiff msPerDay)"

definition hasPaymentMethods :: "'a Customer_scheme \<Rightarrow> bool" where
  "hasPaymentMethods customer =
     (case cards customer of
        Flat cs \<Rightarrow> length cs > 0
      | Nested es \<Rightarrow> length es > 0
      | NoCards \<Rightarrow> False)"

definition analyzeClientStatus ::
  "int \<Rightarrow> 'a Customer_scheme \<Rightarrow> CardAnalysis list option \<Rightarrow> ClientStatus" where
  "analyzeClientStatus now customer analysis =
     (let created = or_else (createdTime customer) (customerSince customer);
          hasC = hasPaymentMethods customer
      in case (if truthy created then created else None) of
           None \<Rightarrow>
             \<lparr>statusTag = (if hasC then AllGood else InactiveOld), priority = NoPriority,
              daysOld = Num 999, hasCards = hasC, requiresAction = False,
              actionMessage = (if hasC then str ''Customer is set up properly''
                               else str ''Old customer - no action needed'')\<rparr>
         | Some ct \<Rightarrow>
             let age = getDaysSinceCreated now ct;
                 hasExpiredCards =
                   (case analysis of None \<Rightarrow> False
                    | Some as \<Rightarrow> list_ex (\<lambda>a. status (expiration a) = Expired) as);
                 hasExpiringSoonCards =
                   (case analysis of None \<Rightarrow> False
                    | Some as \<Rightarrow> list_ex (\<lambda>a. status (expiration a) = ExpiringSoon) as)
             in if hasC \<and> analysis \<noteq> None \<and> hasExpiredCards then
                  \<lparr>statusTag = ExpiredCards, priority = CriticalPriority, daysOld = age,
                   hasCards = hasC, requiresAction = True,
                   actionMessage = str ''URGENT: Customer has expired credit cards''\<rparr>
                else if hasC \<and> analysis \<noteq> None \<and> hasExpiringSoonCards then
                  \<lparr>statusTag = ExpiringCards, priority = HighPriority, daysOld = age,
                   hasCards = hasC, requiresAction = True,
                   actionMessage = str ''Customer has cards expiring soon''\<rparr>
                else if \<not> hasC \<and> num_le age 180 then
                  \<lparr>statusTag = NewNeedsPayment, priority = HighPriority, daysOld = age,
                   hasCards = hasC, requiresAction = True,
                   actionMessage = str ''New customer needs payment method setup''\<rparr>
                else if \<not> hasC \<and> num_gt age 365 then
                  \<lparr>statusTag = InactiveOld, priority = NoPriority, daysOld = age,
                   hasCards = hasC, requiresAction = False,
                   actionMessage = str ''Old inactive customer - no action needed''\<rparr>
                else if \<not> hasC then
                  \<lparr>statusTag = InactiveOld, priority = LowPriority, daysOld = age,
                   hasCards = hasC, requiresAction = False,
                   actionMessage = str ''Customer has not set up payment methods''\<rparr>
                else
                  \<lparr>statusTag = AllGood, priority = NoPriority, daysOld = age,
                   hasCards = hasC, requiresAction = False,
                   actionMessage = str ''Customer is set up properly''\<rparr>)"

definition analyzeCustomersWithStatus ::
  "int \<Rightarrow> CustomerMaybeAnalysed list \<Rightarrow> CustomerWithStatus list" where
  "analyzeCustomersWithStatus now customers =
     map (\<lambda>customer.
        \<lparr>customerId = customerId customer, customerSince = customerSince customer,
         createdTime = createdTime customer, cards = cards customer,
         optExpirationAnalysis = optExpirationAnalysis customer,
         clientStatus = analyzeClientStatus now customer (optExpirationAnalysis customer)\<rparr>)
       customers"

definition getCustomersRequiringAction :: "CustomerWithStatus list \<Rightarrow> CustomerWithStatus list" where
  "getCustomersRequiringAction customers =
     filter (\<lambda>customer. requiresAction (clientStatus customer)) customers"

section \<open>The customer list routes (\<open>customers.tsx\<close>, \<open>customers.print.tsx\<close>)\<close>

text \<open>
  The routes read customers from the \<open>/api/customers\<close> endpoint (its loader follows in
  the next section), already annotated. Fields whose names the analyser's records use
  carry the suffix \<open>_api\<close> here: \<open>card\<close>, \<open>status\<close> (a string in this layer),
  \<open>customerSince\<close>, \<open>totalCards\<close> and \<open>cards\<close>. \<open>None\<close> is an absent field.
\<close>

record ListedCard =
  card_api :: "CustomerCard option"
  status_api :: jsstring
  daysUntil :: int

record ListedCustomer =
  businessName :: "jsstring option"
  customerSince_api :: "int option"
  totalCards_api :: int
  hasExpired :: bool
  hasExpiringSoon :: bool
  cards_api :: "ListedCard list option"

definition cleanupDate :: int where
  "cleanupDate = 1753056000000"

definition threeMonthsAgo :: "int \<Rightarrow> int" where
  "threeMonthsAgo now = now - 90 * 24 * 60 * 60 * 1000"

text \<open>The predicate of \<open>categorizedCustomers.actionRequired\<close> in \<open>customers.tsx\<close>.\<close>

definition actionRequired :: "int \<Rightarrow> ListedCustomer \<Rightarrow> bool" where
  "actionRequired now c =
     (case businessName c of
        None \<Rightarrow> False
      | Some b \<Rightarrow>
          if b = [] \<or> trim b = [] then False
          else
            let hasC = totalCards_api c > 0;
                isNewCustomer =
                  (case customerSince_api c of
                     None \<Rightarrow> False
                   | Some since \<Rightarrow>
                       since \<noteq> 0 \<and>
                       (if hasC then since \<ge> threeMonthsAgo now else since \<ge> cleanupDate));
                hasRecentlyExpired =
                  (case cards_api c of
                     None \<Rightarrow> False
                   | Some cs \<Rightarrow>
                       list_ex (\<lambda>card.
                          if status_api card = str ''expired''
                          then \<bar>daysUntil card\<bar> \<le> 180 else False) cs)
            in isNewCustomer \<or> hasExpiringSoon c \<or> hasRecentlyExpired)"

definition actionRequiredCustomers :: "int \<Rightarrow> ListedCustomer list \<Rightarrow> ListedCustomer list" where
  "actionRequiredCustomers now customers = filter (actionRequired now) customers"

text \<open>The same filter as \<open>customers.print.tsx\<close> writes it for the printed list.\<close>

definition printActionRequired :: "int \<Rightarrow> ListedCustomer \<Rightarrow> bool" where
  "printActionRequired now c =
     (case businessName c of
        None \<Rightarrow> False
      | Some b \<Rightarrow>
          if b = [] \<or> trim b = [] then False
          else
            let hasC = totalCards_api c > 0;
                isNewCustomer =
                  (case customerSince_api c of
                     None \<Rightarrow> False
                   | Some since \<Rightarrow>
                       since \<noteq> 0 \<and>
                       (if hasC then since \<ge> threeMonthsAgo now else since \<ge> cleanupDate));
                hasRecentlyExpired =
                  (case cards_api c of
                     None \<Rightarrow> False
                   | Some cs \<Rightarrow>
                       list_ex (\<lambda>card.
                          if status_api card = str ''expired''
                          then \<bar>daysUntil card\<bar> \<le> 180 else False) cs)
            in isNewCustomer \<or> hasExpiringSoon c \<or> hasRecentlyExpired)"

definition printActionRequiredCustomers ::
  "int \<Rightarrow> ListedCustomer list \<Rightarrow> ListedCustomer list" where
  "printActionRequiredCustomers now customers = filter (printActionRequired now) customers"

text \<open>\<open>formatCardNumber\<close>, \<open>formatExpiry\<close> and \<open>getCardStatus\<close> of \<open>customers.print.tsx\<close>.\<close>

definition formatCardNumber :: "jsstring \<Rightarrow> jsstring \<Rightarrow> jsstring" where
  "formatCardNumber f6 l4 =
     (if f6 = [] \<or> l4 = [] then []
      else substring f6 0 4 @ str '' '' @ substring f6 4 6 @ str ''** **** '' @ l4)"

definition formatExpiry :: "jsstring \<Rightarrow> jsstring" where
  "formatExpiry e =
     (if e = [] \<or> length e \<noteq> 4 then []
      else substring e 0 2 @ str ''/'' @ substring e 2 4)"

text \<open>The record \<open>{status, cardNumber, expiry}\<close> that \<open>getCardStatus\<close> returns.\<close>

record CardStatusLine =
  statusText :: jsstring
  cardNumber :: jsstring
  expiry :: jsstring

text \<open>
  The three branches of \<open>getCardStatus\<close> that show a card build their result by the same
  statements, with a different label; \<open>cardLine\<close> is that block.
\<close>

definition cardLine :: "(jsstring \<Rightarrow> jsstring) \<Rightarrow> jsstring \<Rightarrow> ListedCard \<Rightarrow> CardStatusLine" where
  "cardLine t label chosen =
     (let number =
            (case card_api chosen of
               None \<Rightarrow> []
             | Some c \<Rightarrow>
                 (case (first6 c, last4 c) of
                    (Some f, Some l) \<Rightarrow> if f \<noteq> [] \<and> l \<noteq> [] then formatCardNumber f l else []
                  | _ \<Rightarrow> []));
          exp =
            (case card_api chosen of
               None \<Rightarrow> []
             | Some c \<Rightarrow>
                 (case cardExpirationDate c of
                    None \<Rightarrow> []
                  | Some e \<Rightarrow> if e \<noteq> [] then formatExpiry e else []));
          statusWithExpiry = (if exp \<noteq> [] then t label @ str '' '' @ exp else t label)
      in \<lparr>statusText = statusWithExpiry, cardNumber = number, expiry = []\<rparr>)"

text \<open>The callbacks of the three \<open>reduce\<close> calls.\<close>

definition mostRecentOf :: "ListedCard \<Rightarrow> ListedCard \<Rightarrow> ListedCard" where
  "mostRecentOf recent c = (if \<bar>daysUntil c\<bar> < \<bar>daysUntil recent\<bar> then c else recent)"

definition soonestOf :: "ListedCard \<Rightarrow> ListedCard \<Rightarrow> ListedCard" where
  "soonestOf soon c = (if daysUntil c < daysUntil soon then c else soon)"

text \<open>
  \<open>xs.reduce(f)\<close> without an initial value starts from the first element; every call is
  guarded by a test that the array is not empty.
\<close>

definition getCardStatus :: "(jsstring \<Rightarrow> jsstring) \<Rightarrow> ListedCustomer \<Rightarrow> CardStatusLine" where
  "getCardStatus t customer =
     (let cs = (case cards_api customer of None \<Rightarrow> [] | Some l \<Rightarrow> l);
          expiredCards = filter (\<lambda>c. status_api c = str ''expired'') cs;
          expiringSoonCards = filter (\<lambda>c. status_api c = str ''expiring-soon'') cs
      in if length expiredCards > 0 then
           cardLine t (str ''EXPIRED'') (foldl mostRecentOf (hd expiredCards) (tl expiredCards))
         else if length expiringSoonCards > 0 then
           cardLine t (str ''EXPIRING'')
             (foldl soonestOf (hd expiringSoonCards) (tl expiringSoonCards))
         else if length cs = 0 then
           \<lparr>statusText = t (str ''NO PAYMENT METHOD''), cardNumber = [], expiry = []\<rparr>
         else
           let activeCards =
                 filter (\<lambda>c. status_api c = str ''valid'' \<or> status_api c = str ''active'') cs
           in if length activeCards > 0 then
                cardLine t (str ''Active'') (foldl soonestOf (hd activeCards) (tl activeCards))
              else \<lparr>statusText = t (str ''Active''), cardNumber = [], expiry = []\<rparr>)"

section \<open>The customer list endpoint (route module \<open>api.customers\<close>)\<close>

text \<open>
  The loader of \<open>/api/customers\<close>, from which both routes fetch their customers with
  \<open>all=true\<close>; the sources hold it after the print route, in \<open>customers.print.tsx\<close>. Its
  input is what the two database queries return: the customer rows (with the business
  name of the metadata table) and the card rows of these customers; a card row is a card
  with the id of its customer (\<open>customerId\<close> in the source, \<open>ownerId\<close> here). The queries
  themselves, the emails and the phones are left out, and so is the \<open>catch\<close> block, which
  answers a failure of the database.
\<close>

record CardRow = CustomerCard +
  ownerId :: jsstring

record CustomerRow =
  rowId :: jsstring
  rowBusinessName :: "jsstring option"
  rowCustomerSince :: "int option"

text \<open>An element of \<open>cardAnalysis\<close>, as the loader builds it.\<close>

record ServedCard =
  servedCard :: CardRow
  servedStatus :: jsstring
  servedDaysUntil :: number

text \<open>
  The callback of \<open>customerCards.map\<close>. The expiration date is the 28th of the month of
  the code, at local midnight of the server; \<open>now\<close> is the server's clock.
\<close>

definition apiCardAnalysis :: "int \<Rightarrow> int \<Rightarrow> CardRow \<Rightarrow> ServedCard" where
  "apiCardAnalysis tz now k =
     (case cardExpirationDate k of
        None \<Rightarrow>
          \<lparr>servedCard = k, servedStatus = str ''no-expiration'', servedDaysUntil = Num 999999\<rparr>
      | Some e \<Rightarrow>
          if e = [] then
            \<lparr>servedCard = k, servedStatus = str ''no-expiration'',
             servedDaysUntil = Num 999999\<rparr>
          else
            let month = parseIntAuto (substring e 0 2);
                year = num_add (Num 2000) (parseIntAuto (substring e 2 4));
                expDate = newDate tz year (num_sub month (Num 1)) (Num 28);
                daysDiff = ceil_quot (num_sub (getTime expDate) (Num now)) msPerDay;
                st = (if num_lt daysDiff 0 then str ''expired''
                      else if num_le daysDiff 30 then str ''expiring-soon''
                      else str ''valid'')
            in \<lparr>servedCard = k, servedStatus = st, servedDaysUntil = daysDiff\<rparr>)"

text \<open>
  What a route reads for a card from the JSON response. JSON has no \<open>NaN\<close>:
  \<open>Response.json\<close> writes it as \<open>null\<close>, which \<open>Math.abs\<close> and \<open><\<close>, the only operations
  of the routes on a day count, read as 0.
\<close>

definition readCard :: "ServedCard \<Rightarrow> ListedCard" where
  "readCard a =
     \<lparr>card_api = Some (CustomerCard.truncate (servedCard a)),
      status_api = servedStatus a,
      daysUntil = (case servedDaysUntil a of Num d \<Rightarrow> d | NaN \<Rightarrow> 0)\<rparr>"

text \<open>
  \<open>cardsByCustomer\<close>: the \<open>reduce\<close> that groups the card rows by customer, in an object
  that starts empty (customer ids are the platform's identifiers; none of them names a
  property of \<open>Object.prototype\<close>).
\<close>

definition groupByCustomer :: "CardRow list \<Rightarrow> jsstring \<Rightarrow> CardRow list option" where
  "groupByCustomer cardRows =
     foldl (\<lambda>acc card.
        acc(ownerId card \<mapsto>
              (case acc (ownerId card) of None \<Rightarrow> [] | Some l \<Rightarrow> l) @ [card]))
       Map.empty cardRows"

text \<open>
  The callback of \<open>customers.map\<close>, with the fields that the routes read, and the loader's
  list of customers.
\<close>

definition servedCustomer :: "int \<Rightarrow> int \<Rightarrow> CustomerRow \<Rightarrow> CardRow list \<Rightarrow> ListedCustomer" where
  "servedCustomer tz now customer customerCards =
     (let cardAnalysis = map (apiCardAnalysis tz now) customerCards
      in \<lparr>businessName = rowBusinessName customer,
          customerSince_api = rowCustomerSince customer,
          totalCards_api = int (length customerCards),
          hasExpired = list_ex (\<lambda>c. servedStatus c = str ''expired'') cardAnalysis,
          hasExpiringSoon = list_ex (\<lambda>c. servedStatus c = str ''expiring-soon'') cardAnalysis,
          cards_api = Some (map readCard cardAnalysis)\<rparr>)"

definition apiCustomers ::
  "int \<Rightarrow> int \<Rightarrow> CustomerRow list \<Rightarrow> CardRow list \<Rightarrow> ListedCustomer list" where
  "apiCustomers tz now customers cardRows =
     (let cardsByCustomer = groupByCustomer cardRows
      in map (\<lambda>customer.
           servedCustomer tz now customer
             (case cardsByCustomer (rowId customer) of None \<Rightarrow> [] | Some l \<Rightarrow> l))
           customers)"

section \<open>Reference notions for the statements\<close>

text \<open>
  The calendar's length of month \<open>month\<close> (1 for January) of a year, by the Gregorian
  leap-year rule; it is what the statements compare the codec with, and no function of
  the model uses it.
\<close>

definition lastDayOfMonth :: "int \<Rightarrow> int \<Rightarrow> int" where
  "lastDayOfMonth year month =
     (if month = 2 then
        (if (year mod 4 = 0 \<and> year mod 100 \<noteq> 0) \<or> year mod 400 = 0 then 29 else 28)
      else if month = 4 \<or> month = 6 \<or> month = 9 \<or> month = 11 then 30
      else 31)"

text \<open>
  The code \<open>MMYY\<close> of a month number and a two-digit year: two decimal digits each.
\<close>

definition digit :: "nat \<Rightarrow> 16 word" where
  "digit n = of_nat (48 + n)"

definition mmyy :: "nat \<Rightarrow> nat \<Rightarrow> jsstring" where
  "mmyy m yy = [digit (m div 10), digit (m mod 10), digit (yy div 10), digit (yy mod 10)]"


section \<open>Calendar arithmetic\<close>

lemma div_step:
  fixes n k :: int
  assumes "0 < k"
  shows "(n + 1) div k = n div k + (if (n + 1) mod k = 0 then 1 else 0)"
proof (cases "(n + 1) mod k = 0")
  case True
  then obtain q where q: "n + 1 = k * q" by (auto simp: mod_eq_0_iff_dvd)
  have "n = (k - 1) + (q - 1) * k" using q by (simp add: algebra_simps)
  then have "n div k = (k - 1 + (q - 1) * k) div k" by simp
  also have "\<dots> = (k - 1) div k + (q - 1)" using assms by simp
  also have "(k - 1) div k = 0" using assms by (simp add: div_pos_pos_trivial)
  finally have "n div k = q - 1" by simp
  moreover have "(n + 1) div k = q" using q assms by simp
  ultimately show ?thesis using True by simp
next
  case False
  have bounds: "0 \<le> n mod k" "n mod k < k" using assms by simp_all
  have "n mod k + 1 \<noteq> k"
  proof
    assume "n mod k + 1 = k"
    then have "(n + 1) mod k = 0"
      by (metis mod_add_left_eq mod_self)
    with False show False by simp
  qed
  then have small: "n mod k + 1 < k" using bounds by linarith
  have e: "n div k * k + (n mod k + 1) = n + 1" by simp
  have "(n div k * k + (n mod k + 1)) div k = n div k + (n mod k + 1) div k"
    by (rule div_mult_self3) (use assms in simp)
  then have "(n + 1) div k = n div k + (n mod k + 1) div k" unfolding e .
  moreover have "(n mod k + 1) div k = 0"
    using small bounds by (simp add: div_pos_pos_trivial)
  ultimately show ?thesis using False by simp
qed

lemma mod_shift:
  fixes y k c :: int
  shows "(y - k * c) mod k = y mod k"
proof -
  have "(y - k * c) mod k = (y + k * (- c)) mod k" by simp
  also have "\<dots> = y mod k" by (rule mod_mult_self2)
  finally show ?thesis .
qed

lemma dayFromYear_step: "dayFromYear (y + 1) = dayFromYear y + daysInYear y"
proof -
  have m4: "(y - 1968) mod 4 = y mod 4" using mod_shift [of y 4 492] by simp
  have m100: "(y - 1900) mod 100 = y mod 100" using mod_shift [of y 100 19] by simp
  have m400: "(y - 1600) mod 400 = y mod 400" using mod_shift [of y 400 4] by simp
  have a: "(y + 1 - 1969) div 4 = (y - 1969) div 4 + (if y mod 4 = 0 then 1 else 0)"
    using div_step [of 4 "y - 1969"] m4 by simp
  have b: "(y + 1 - 1901) div 100 = (y - 1901) div 100 + (if y mod 100 = 0 then 1 else 0)"
    using div_step [of 100 "y - 1901"] m100 by simp
  have c: "(y + 1 - 1601) div 400 = (y - 1601) div 400 + (if y mod 400 = 0 then 1 else 0)"
    using div_step [of 400 "y - 1601"] m400 by simp
  have "(100::int) dvd 400" "(4::int) dvd 100" by simp_all
  then have d: "y mod 400 = 0 \<Longrightarrow> y mod 100 = 0" "y mod 100 = 0 \<Longrightarrow> y mod 4 = 0"
    by (meson dvd_trans mod_eq_0_iff_dvd)+
  show ?thesis
    unfolding dayFromYear_def daysInYear_def inLeapYear_def a b c using d by auto
qed

lemma dayFromYear_less: "dayFromYear y < dayFromYear (y + 1)"
  by (simp add: dayFromYear_step daysInYear_def)

lemma dayFromYear_mono_nat: "dayFromYear y \<le> dayFromYear (y + int n)"
proof (induction n)
  case 0
  show ?case by simp
next
  case (Suc n)
  have eq: "y + int (Suc n) = (y + int n) + 1" by simp
  show ?case
    unfolding eq using dayFromYear_less [of "y + int n"] Suc by linarith
qed

lemma dayFromYear_mono: "y \<le> y' \<Longrightarrow> dayFromYear y \<le> dayFromYear y'"
  using dayFromYear_mono_nat [of y "nat (y' - y)"] by simp

lemma yearDown_le: "dayFromYear (yearDown y d) \<le> d"
proof (induction y d rule: yearDown.induct)
  case (1 y d)
  then show ?case by (subst yearDown.simps) auto
qed

lemma yearUp_bounds:
  "dayFromYear y \<le> d \<Longrightarrow>
     dayFromYear (yearUp y d) \<le> d \<and> d < dayFromYear (yearUp y d + 1)"
proof (induction y d rule: yearUp.induct)
  case (1 y d)
  then show ?case by (subst (1 2) yearUp.simps) auto
qed

lemma yearFromDay_bounds:
  "dayFromYear (yearFromDay d) \<le> d \<and> d < dayFromYear (yearFromDay d + 1)"
  unfolding yearFromDay_def by (rule yearUp_bounds) (rule yearDown_le)

lemma yearFromDay_eq:
  assumes "dayFromYear y \<le> d" and "d < dayFromYear (y + 1)"
  shows "yearFromDay d = y"
proof (rule ccontr)
  assume ne: "yearFromDay d \<noteq> y"
  let ?z = "yearFromDay d"
  from yearFromDay_bounds [of d]
  have z: "dayFromYear ?z \<le> d" "d < dayFromYear (?z + 1)" by simp_all
  from ne consider "?z + 1 \<le> y" | "y + 1 \<le> ?z" by linarith
  then show False
  proof cases
    case 1
    then have "dayFromYear (?z + 1) \<le> dayFromYear y" by (rule dayFromYear_mono)
    with z assms show False by linarith
  next
    case 2
    then have "dayFromYear (y + 1) \<le> dayFromYear ?z" by (rule dayFromYear_mono)
    with z assms show False by linarith
  qed
qed


lemma month_cases:
  fixes m :: int
  assumes "0 \<le> m" "m \<le> 11"
  obtains "m = 0" | "m = 1" | "m = 2" | "m = 3" | "m = 4" | "m = 5"
    | "m = 6" | "m = 7" | "m = 8" | "m = 9" | "m = 10" | "m = 11"
proof -
  from assms
  have "m = 0 \<or> m = 1 \<or> m = 2 \<or> m = 3 \<or> m = 4 \<or> m = 5
        \<or> m = 6 \<or> m = 7 \<or> m = 8 \<or> m = 9 \<or> m = 10 \<or> m = 11"
    by arith
  then show thesis using that by blast
qed

lemma monthStart_diff:
  assumes "1 \<le> m" "m \<le> 12"
  shows "monthStart m (inLeapYear y) - monthStart (m - 1) (inLeapYear y) = lastDayOfMonth y m"
proof -
  from assms have "0 \<le> m - 1" "m - 1 \<le> 11" by simp_all
  then show ?thesis
    by (cases "m - 1" rule: month_cases)
       (auto simp: monthStart_def lastDayOfMonth_def inLeapYear_def)
qed

lemma monthStart_bounds:
  assumes "0 \<le> m" "m \<le> 11"
  shows "0 \<le> monthStart m L \<and> monthStart (m + 1) L \<le> 365 + (if L then 1 else 0)
         \<and> monthStart m L < monthStart (m + 1) L"
  using assms by (cases m rule: month_cases) (auto simp: monthStart_def)

lemma calendar_of_day:
  assumes m: "0 \<le> m" "m \<le> 11"
    and k: "1 \<le> k" "k \<le> monthStart (m + 1) (inLeapYear y) - monthStart m (inLeapYear y)"
  defines "d \<equiv> dayFromYear y + monthStart m (inLeapYear y) + k - 1"
  shows "yearFromDay d = y" and "monthFromDay d = m" and "dateFromDay d = k"
proof -
  let ?L = "inLeapYear y"
  from monthStart_bounds [OF m, of ?L] k
  have w: "0 \<le> monthStart m ?L + k - 1" "monthStart m ?L + k - 1 < daysInYear y"
    by (auto simp: daysInYear_def split: if_splits)
  show yr: "yearFromDay d = y"
    by (rule yearFromDay_eq) (use w in \<open>auto simp: d_def dayFromYear_step\<close>)
  have within: "dayWithinYear d = monthStart m ?L + k - 1"
    by (simp add: dayWithinYear_def yr) (simp add: d_def)
  show mo: "monthFromDay d = m"
    unfolding monthFromDay_def within yr Let_def
    using m k by (cases m rule: month_cases) (auto simp: monthStart_def)
  show "dateFromDay d = k"
    by (simp add: dateFromDay_def within yr mo)
qed


lemma makeDay_in_year:
  assumes "0 \<le> m" "m \<le> 11"
  shows "makeDay y m k = dayFromYear y + monthStart m (inLeapYear y) + k - 1"
  using assms by (simp add: makeDay_def div_pos_pos_trivial mod_pos_pos_trivial)

lemma makeDay_day_zero:
  assumes "1 \<le> m" "m \<le> 12"
  shows "makeDay y m 0 =
           dayFromYear y + monthStart (m - 1) (inLeapYear y) + lastDayOfMonth y m - 1"
proof (cases "m = 12")
  case True
  have "makeDay y 12 0 = dayFromYear (y + 1) - 1"
    by (simp add: makeDay_def monthStart_def)
  also have "\<dots> = dayFromYear y + monthStart 12 (inLeapYear y) - 1"
    by (simp add: dayFromYear_step daysInYear_def monthStart_def)
  finally show ?thesis
    using monthStart_diff [of 12 y] True by simp
next
  case False
  with assms have "0 \<le> m" "m \<le> 11" by simp_all
  then have "makeDay y m 0 = dayFromYear y + monthStart m (inLeapYear y) + 0 - 1"
    by (rule makeDay_in_year)
  then show ?thesis
    using monthStart_diff [OF assms, of y] by simp
qed

lemma lastDayOfMonth_range: "28 \<le> lastDayOfMonth y m \<and> lastDayOfMonth y m \<le> 31"
  by (simp add: lastDayOfMonth_def)

text \<open>The days of the years 1990 to 2110 are far inside the range of time values.\<close>

lemma dayFromYear_range:
  assumes "1990 \<le> y" "y \<le> 2110"
  shows "7305 \<le> dayFromYear y" and "dayFromYear y \<le> 51134"
proof -
  have ends: "dayFromYear 1990 = 7305" "dayFromYear 2110 = 51134"
    by (simp_all add: dayFromYear_def)
  have "dayFromYear 1990 \<le> dayFromYear y" using assms by (intro dayFromYear_mono)
  then show "7305 \<le> dayFromYear y" unfolding ends .
  have "dayFromYear y \<le> dayFromYear 2110" using assms by (intro dayFromYear_mono)
  then show "dayFromYear y \<le> 51134" unfolding ends .
qed

lemma timeClip_local_day:
  assumes "0 \<le> d" "d \<le> 100000" "\<bar>tz\<bar> \<le> msPerDay"
  shows "timeClip (d * msPerDay - tz) = Num (d * msPerDay - tz)"
  using assms by (simp add: timeClip_def msPerDay_def)

lemma local_day_of: "(d * msPerDay - tz + tz) div msPerDay = d"
  by (simp add: msPerDay_def)

text \<open>
  The local midnight of day \<open>k\<close> of month \<open>m\<close> (0 for January) of year \<open>y\<close> is a valid
  time value, and reading it back in local time gives \<open>y\<close>, \<open>m\<close> and \<open>k\<close>.
\<close>

lemma local_date_fields:
  assumes y: "1990 \<le> y" "y \<le> 2110" and m: "0 \<le> m" "m \<le> 11"
    and k: "1 \<le> k" "k \<le> monthStart (m + 1) (inLeapYear y) - monthStart m (inLeapYear y)"
    and tz: "\<bar>tz\<bar> \<le> msPerDay"
  shows "timeClip (makeDay y m k * msPerDay - tz) = Num (makeDay y m k * msPerDay - tz)"
    and "getFullYear tz (Num (makeDay y m k * msPerDay - tz)) = Num y"
    and "getMonth tz (Num (makeDay y m k * msPerDay - tz)) = Num m"
    and "getDate tz (Num (makeDay y m k * msPerDay - tz)) = Num k"
proof -
  have md: "makeDay y m k = dayFromYear y + monthStart m (inLeapYear y) + k - 1"
    using m by (rule makeDay_in_year)
  from monthStart_bounds [OF m, of "inLeapYear y"] k dayFromYear_range [OF y]
  have "0 \<le> makeDay y m k" "makeDay y m k \<le> 100000"
    unfolding md by (auto split: if_splits)
  then show "timeClip (makeDay y m k * msPerDay - tz) = Num (makeDay y m k * msPerDay - tz)"
    using tz by (rule timeClip_local_day)
  show "getFullYear tz (Num (makeDay y m k * msPerDay - tz)) = Num y"
    unfolding getFullYear.simps local_day_of md using calendar_of_day(1) [OF m k] by simp
  show "getMonth tz (Num (makeDay y m k * msPerDay - tz)) = Num m"
    unfolding getMonth.simps local_day_of md using calendar_of_day(2) [OF m k] by simp
  show "getDate tz (Num (makeDay y m k * msPerDay - tz)) = Num k"
    unfolding getDate.simps local_day_of md using calendar_of_day(3) [OF m k] by simp
qed

text \<open>
  \<open>MakeDay\<close> carries a month outside 0..11 into the year. With day 0 it names the last
  day of the month before, which is month \<open>(m - 1) mod 12\<close> of year
  \<open>y + (m - 1) div 12\<close>.
\<close>

lemma makeDay_normalise: "makeDay y m k = makeDay (y + m div 12) (m mod 12) k"
  by (simp add: makeDay_def div_pos_pos_trivial)

lemma makeDay_zero_is_last_day:
  fixes y m :: int
  defines "y' \<equiv> y + (m - 1) div 12" and "i \<equiv> (m - 1) mod 12"
  shows "makeDay y m 0 = makeDay y' i (lastDayOfMonth y' (i + 1))"
proof -
  have i: "0 \<le> i" "i \<le> 11" by (simp_all add: i_def)
  have md: "m mod 12 = (i + 1) mod 12"
    using mod_add_left_eq [of "m - 1" 12 1] by (simp add: i_def)
  have carry: "(i + 1) div 12 = (if i = 11 then 1 else 0)"
    using i by (auto simp: div_pos_pos_trivial)
  have "(i + 1) mod 12 = 0 \<longleftrightarrow> i = 11"
    using i by (cases "i = 11") (simp_all add: mod_pos_pos_trivial)
  then have "m div 12 = (m - 1) div 12 + (i + 1) div 12"
    using div_step [of 12 "m - 1"] md carry by simp
  with md have "makeDay y m 0 = makeDay y' (i + 1) 0"
    by (simp add: makeDay_def y'_def add.assoc)
  also have "\<dots> = dayFromYear y' + monthStart i (inLeapYear y') + lastDayOfMonth y' (i + 1) - 1"
    using makeDay_day_zero [of "i + 1" y'] i by simp
  also have "\<dots> = makeDay y' i (lastDayOfMonth y' (i + 1))"
    using makeDay_in_year [OF i, of y'] by simp
  finally show ?thesis .
qed

section \<open>The card classifier\<close>

lemma ceil_quot_ceiling:
  "- ((- a) div msPerDay) = \<lceil>real_of_int a / real_of_int msPerDay\<rceil>"
proof -
  have "\<lceil>real_of_int a / real_of_int msPerDay\<rceil> = - \<lfloor>real_of_int (- a) / real_of_int msPerDay\<rfloor>"
    by (simp add: ceiling_def)
  also have "\<lfloor>real_of_int (- a) / real_of_int msPerDay\<rfloor> = (- a) div msPerDay"
    by (rule floor_divide_of_int_eq)
  finally show ?thesis by simp
qed

text \<open>
  Claim C1. For a code that resolves to a date with time value \<open>e\<close> and any clock reading
  \<open>now\<close>, the classification record carries that date, its day count is the ceiling of
  \<open>(e - now)\<close> in days, and status and warning level follow the day count: below 0
  expired and critical, 0 to 30 expiring-soon and critical, 31 to 90 expiring-later and
  warning, above 90 valid and none. While \<open>now\<close> lies in the day that starts at \<open>e\<close>,
  the count is 0 and the card is expiring-soon, not expired.
\<close>

theorem C1_days_and_status:
  assumes "parseExpirationDate tz code = Some (Num e)"
  shows "\<exists>r. analyzeCardExpiration tz now code = Some r
           \<and> expirationDate r = Num e
           \<and> daysUntilExpiration r = Num \<lceil>real_of_int (e - now) / real_of_int msPerDay\<rceil>
           \<and> (let d = \<lceil>real_of_int (e - now) / real_of_int msPerDay\<rceil> in
                (d < 0 \<longrightarrow> status r = Expired \<and> warningLevel r = Critical)
              \<and> (0 \<le> d \<and> d \<le> 30 \<longrightarrow> status r = ExpiringSoon \<and> warningLevel r = Critical)
              \<and> (31 \<le> d \<and> d \<le> 90 \<longrightarrow> status r = ExpiringLater \<and> warningLevel r = Warning)
              \<and> (90 < d \<longrightarrow> status r = Valid \<and> warningLevel r = NoWarning))
           \<and> (e \<le> now \<and> now < e + msPerDay \<longrightarrow>
                daysUntilExpiration r = Num 0 \<and> status r = ExpiringSoon)"
proof -
  define d where "d = \<lceil>real_of_int (e - now) / real_of_int msPerDay\<rceil>"
  have days: "getDaysUntilExpiration now (Num e) = Num d"
    by (simp only: getDaysUntilExpiration_def getTime_def Let_def num_sub.simps
        ceil_quot.simps ceil_quot_ceiling d_def)
  have today: "d = 0" if "e \<le> now" "now < e + msPerDay"
  proof -
    have "- ((- (e - now)) div msPerDay) = 0"
      using that by (simp add: msPerDay_def div_pos_pos_trivial)
    then show ?thesis by (simp only: d_def ceil_quot_ceiling)
  qed
  have "analyzeCardExpiration tz now code =
      Some \<lparr>status = (if d < 0 then Expired else if d \<le> 30 then ExpiringSoon
                         else if d \<le> 90 then ExpiringLater else Valid),
            daysUntilExpiration = Num d, expirationDate = Num e,
            warningLevel = (if d < 0 then Critical else if d \<le> 30 then Critical
                         else if d \<le> 90 then Warning else NoWarning)\<rparr>"
    by (simp add: analyzeCardExpiration_def assms days Let_def)
  then show ?thesis
    unfolding d_def [symmetric] Let_def
    using today by auto
qed

theorem C1_days_and_status_witness:
  "parseExpirationDate 0 (Some (str ''1226'')) = Some (Num 1798675200000)
   \<and> (\<exists>r. analyzeCardExpiration 0 1794700800000 (Some (str ''1226'')) = Some r
         \<and> daysUntilExpiration r = Num 46 \<and> status r = ExpiringLater)"
proof -
  have p: "parseExpirationDate 0 (Some (str ''1226'')) = Some (Num 1798675200000)"
    by code_simp
  show ?thesis
    using C1_days_and_status [OF p, of 1794700800000] p by (auto simp: msPerDay_def Let_def)
qed


section \<open>The expiration codec\<close>

lemma digit_cases:
  fixes k :: nat
  assumes "k < 10"
  obtains "k = 9" | "k = 8" | "k = 7" | "k = 6" | "k = 5"
    | "k = 4" | "k = 3" | "k = 2" | "k = 1" | "k = 0"
proof -
  from assms have "k \<in> {9, 8, 7, 6, 5, 4, 3, 2, 1, 0}" by auto
  then show thesis using that by blast
qed

lemma digit_props:
  assumes "n < 10"
  shows "isDigit (digit n)" and "\<not> isWhiteSpace (digit n)"
    and "digitValue (digit n) = int n" and "digit n \<noteq> 0x2B" and "digit n \<noteq> 0x2D"
  using assms
  by (cases n rule: digit_cases;
      simp add: digit_def isDigit_def isWhiteSpace_def digitValue_def)+

lemma parseInt10_two_digits:
  assumes "isDigit a" "\<not> isWhiteSpace a" "a \<noteq> 0x2B" "a \<noteq> 0x2D" "isDigit b"
  shows "parseInt10 [a, b] = Num (10 * digitValue a + digitValue b)"
  using assms by (simp add: parseInt10_def parseDigits_def digitsValue_def Let_def)

lemma parseInt10_digits:
  assumes "n \<le> 99"
  shows "parseInt10 [digit (n div 10), digit (n mod 10)] = Num (int n)"
proof -
  from assms have hi: "n div 10 < 10" and lo: "n mod 10 < 10" by simp_all
  have "parseInt10 [digit (n div 10), digit (n mod 10)]
          = Num (10 * digitValue (digit (n div 10)) + digitValue (digit (n mod 10)))"
    by (intro parseInt10_two_digits digit_props hi lo)
  also have "\<dots> = Num (int n)"
    unfolding digit_props(3) [OF hi] digit_props(3) [OF lo]
    by (simp add: zdiv_int zmod_int)
  finally show ?thesis .
qed

lemma parse_mmyy:
  assumes "m \<le> 99" "yy \<le> 99"
  shows "parseExpirationDate tz (Some (mmyy m yy)) =
           Some (newDate tz (Num (int yy + 2000)) (Num (int m - 1))
                   (getLastDayOfMonth tz (Num (int yy + 2000)) (Num (int m))))"
  by (simp add: parseExpirationDate_def mmyy_def substring_def Let_def
      parseInt10_digits [OF assms(1)] parseInt10_digits [OF assms(2)])


text \<open>
  What a code of four digits resolves to, whatever its month field: the last day of
  month \<open>(m - 1) mod 12 + 1\<close> of year \<open>2000 + yy + (m - 1) div 12\<close>, at local midnight.
\<close>

lemma parse_mmyy_value:
  fixes m yy :: nat and tz :: int
  defines "y' \<equiv> 2000 + int yy + (int m - 1) div 12" and "i \<equiv> (int m - 1) mod 12"
  assumes "m \<le> 99" "yy \<le> 99" "\<bar>tz\<bar> \<le> msPerDay"
  shows "parseExpirationDate tz (Some (mmyy m yy)) =
           Some (Num (makeDay y' i (lastDayOfMonth y' (i + 1)) * msPerDay - tz))"
    and "getFullYear tz (Num (makeDay y' i (lastDayOfMonth y' (i + 1)) * msPerDay - tz)) = Num y'"
    and "getMonth tz (Num (makeDay y' i (lastDayOfMonth y' (i + 1)) * msPerDay - tz)) = Num i"
    and "getDate tz (Num (makeDay y' i (lastDayOfMonth y' (i + 1)) * msPerDay - tz))
           = Num (lastDayOfMonth y' (i + 1))"
proof -
  let ?Y = "int yy + 2000"
  let ?k = "lastDayOfMonth y' (i + 1)"
  let ?t = "makeDay y' i ?k * msPerDay - tz"
  have i: "0 \<le> i" "i \<le> 11" by (simp_all add: i_def)
  have "(- 1) div 12 \<le> (int m - 1) div 12" "(int m - 1) div 12 \<le> 98 div (12::int)"
    using assms(3) by (intro zdiv_mono1; simp)+
  then have y': "1990 \<le> y'" "y' \<le> 2110" using assms(4) by (simp_all add: y'_def)
  have len: "monthStart (i + 1) (inLeapYear y') - monthStart i (inLeapYear y') = ?k"
    using monthStart_diff [of "i + 1" y'] i by simp
  have k: "1 \<le> ?k" "?k \<le> monthStart (i + 1) (inLeapYear y') - monthStart i (inLeapYear y')"
    using lastDayOfMonth_range [of y' "i + 1"] len by simp_all
  note f = local_date_fields [OF y' i k assms(5)]
  have d0: "makeDay ?Y (int m) 0 = makeDay y' i ?k"
    using makeDay_zero_is_last_day [of ?Y "int m"] by (simp add: y'_def i_def add.commute)
  have dk: "makeDay ?Y (int m - 1) ?k = makeDay y' i ?k"
    using makeDay_normalise [of ?Y "int m - 1" ?k] by (simp add: y'_def i_def add.commute)
  have last: "getLastDayOfMonth tz (Num ?Y) (Num (int m)) = Num ?k"
    by (simp add: getLastDayOfMonth_def d0 f(1) f(4) del: getDate.simps)
  have "parseExpirationDate tz (Some (mmyy m yy)) =
           Some (newDate tz (Num ?Y) (Num (int m - 1)) (getLastDayOfMonth tz (Num ?Y) (Num (int m))))"
    using assms(3,4) by (rule parse_mmyy)
  also have "\<dots> = Some (Num ?t)"
    unfolding last by (simp add: dk f(1))
  finally show "parseExpirationDate tz (Some (mmyy m yy)) = Some (Num ?t)" .
  show "getFullYear tz (Num ?t) = Num y'" "getMonth tz (Num ?t) = Num i"
    "getDate tz (Num ?t) = Num ?k"
    by (rule f)+
qed

lemma local_midnight: "(d * msPerDay - tz + tz) mod msPerDay = 0"
  by simp

lemma parse_four_chars:
  assumes "length s = 4"
  shows "parseExpirationDate tz (Some s) =
           Some (newDate tz (num_add (parseInt10 (substring s 2 4)) (Num 2000))
                   (num_sub (parseInt10 (substring s 0 2)) (Num 1))
                   (getLastDayOfMonth tz (num_add (parseInt10 (substring s 2 4)) (Num 2000))
                      (parseInt10 (substring s 0 2))))"
  using assms by (auto simp: parseExpirationDate_def Let_def)

lemma newDate_NaN:
  "newDate tz NaN m d = NaN" "newDate tz y NaN d = NaN"
  by (cases m; cases d; simp) (cases y; cases d; simp)

lemma analyze_invalid_date:
  assumes "parseExpirationDate tz code = Some NaN"
  shows "analyzeCardExpiration tz now code =
           Some \<lparr>status = Valid, daysUntilExpiration = NaN, expirationDate = NaN,
                 warningLevel = NoWarning\<rparr>"
  by (simp add: analyzeCardExpiration_def assms getDaysUntilExpiration_def getTime_def)

text \<open>Every code of four decimal digits is the code of its month and year fields.\<close>

lemma isDigit_is_digit:
  assumes "isDigit u"
  shows "\<exists>k<10. u = digit k"
proof -
  from assms have b: "48 \<le> unat u" "unat u \<le> 57"
    by (simp_all add: isDigit_def word_le_nat_alt)
  have "u = of_nat (unat u)" by simp
  also have "unat u = 48 + (unat u - 48)" using b by simp
  finally have "u = digit (unat u - 48)" by (simp only: digit_def)
  moreover have "unat u - 48 < 10" using b by simp
  ultimately show ?thesis by blast
qed

lemma four_digits_is_mmyy:
  assumes "length s = 4" and "\<forall>u\<in>set s. isDigit u"
  shows "\<exists>m yy. m \<le> 99 \<and> yy \<le> 99 \<and> s = mmyy m yy"
proof -
  from assms(1) obtain a b c d where s: "s = [a, b, c, d]"
    by (auto simp: length_Suc_conv numeral_eq_Suc)
  from assms(2) s obtain ka kb kc kd
    where k: "ka < 10" "kb < 10" "kc < 10" "kd < 10"
      and u: "a = digit ka" "b = digit kb" "c = digit kc" "d = digit kd"
    using isDigit_is_digit by (metis list.set_intros(1) list.set_intros(2))
  have "s = mmyy (10 * ka + kb) (10 * kc + kd)"
    using k by (simp add: s u mmyy_def)
  moreover have "10 * ka + kb \<le> 99" "10 * kc + kd \<le> 99" using k by simp_all
  ultimately show ?thesis by blast
qed

text \<open>
  Claim C4. For every month \<open>m\<close> from 1 to 12 and every two-digit year \<open>yy\<close>, the code
  \<open>MMYY\<close> resolves to a valid date at local midnight whose year is \<open>2000 + yy\<close>, whose
  month is \<open>m\<close> (index \<open>m - 1\<close>) and whose day is the calendar's last day of that
  month, 28, 29, 30 or 31; for February it is the 29th exactly when \<open>yy\<close> is a multiple of
  4, the leap years of 2000 to 2099. The day comes out of the date arithmetic of
  \<open>getLastDayOfMonth\<close>. By \<open>four_digits_is_mmyy\<close> these are all the codes of four digits
  with a month from 01 to 12. (The local offset is at most a day.)
\<close>

theorem C4_last_day_of_month:
  assumes "1 \<le> m" "m \<le> 12" "yy \<le> 99" "\<bar>tz\<bar> \<le> msPerDay"
  shows "\<exists>t. parseExpirationDate tz (Some (mmyy m yy)) = Some (Num t)
           \<and> getFullYear tz (Num t) = Num (2000 + int yy)
           \<and> getMonth tz (Num t) = Num (int m - 1)
           \<and> getDate tz (Num t) = Num (lastDayOfMonth (2000 + int yy) (int m))
           \<and> (t + tz) mod msPerDay = 0
           \<and> (m = 2 \<longrightarrow> getDate tz (Num t) = Num (if yy mod 4 = 0 then 29 else 28))"
proof -
  let ?y = "2000 + int yy"
  let ?t = "makeDay ?y (int m - 1) (lastDayOfMonth ?y (int m)) * msPerDay - tz"
  have dm: "(int m - 1) div 12 = 0" "(int m - 1) mod 12 = int m - 1"
    using assms(1,2) by (simp_all add: div_pos_pos_trivial mod_pos_pos_trivial)
  have "m \<le> 99" using assms(2) by simp
  note v = parse_mmyy_value [OF this assms(3,4)]
  have t: "parseExpirationDate tz (Some (mmyy m yy)) = Some (Num ?t)"
    "getFullYear tz (Num ?t) = Num ?y" "getMonth tz (Num ?t) = Num (int m - 1)"
    "getDate tz (Num ?t) = Num (lastDayOfMonth ?y (int m))"
    using v unfolding dm by simp_all
  have midnight: "(?t + tz) mod msPerDay = 0" by (rule local_midnight)
  have feb: "lastDayOfMonth ?y 2 = (if yy mod 4 = 0 then 29 else 28)"
  proof -
    have a: "?y mod 4 = int yy mod 4"
      using mod_mult_self2 [of "int yy" 4 500] by (simp add: add.commute)
    have b: "?y mod 100 = int yy"
      using mod_mult_self2 [of "int yy" 100 20] assms(3) by (simp add: add.commute)
    have c: "?y mod 400 = int yy"
      using mod_mult_self2 [of "int yy" 400 5] assms(3) by (simp add: add.commute)
    have d: "int yy mod 4 = 0 \<longleftrightarrow> yy mod 4 = 0"
      by presburger
    show ?thesis
      unfolding lastDayOfMonth_def a b c d by auto
  qed
  have "m = 2 \<longrightarrow> getDate tz (Num ?t) = Num (if yy mod 4 = 0 then 29 else 28)"
    using feb by (auto simp only: t of_nat_numeral)
  then show ?thesis
    by (intro exI [of _ ?t] conjI) (simp_all only: t midnight)
qed

theorem C4_last_day_of_month_witness:
  "(1::nat) \<le> 2 \<and> (2::nat) \<le> 12 \<and> (28::nat) \<le> 99 \<and> \<bar>0\<bar> \<le> msPerDay
   \<and> mmyy 2 28 = str ''0228''
   \<and> (\<exists>t. parseExpirationDate 0 (Some (mmyy 2 28)) = Some (Num t)
          \<and> getFullYear 0 (Num t) = Num 2028 \<and> getMonth 0 (Num t) = Num 1
          \<and> getDate 0 (Num t) = Num 29)"
proof -
  have h: "(1::nat) \<le> 2" "(2::nat) \<le> 12" "(28::nat) \<le> 99" "\<bar>0\<bar> \<le> msPerDay"
    by (simp_all add: msPerDay_def)
  have "mmyy 2 28 = str ''0228''" by (simp add: mmyy_def digit_def str_def)
  then show ?thesis
    using h C4_last_day_of_month [OF h] by auto
qed


section \<open>Malformed codes\<close>

text \<open>
  A code of four characters is never rejected: the codec tests the length and nothing
  else, so the classifier returns a record for it, whatever the four characters are.
\<close>

lemma four_characters_classified:
  assumes "length s = 4"
  shows "parseExpirationDate tz (Some s) \<noteq> None"
    and "analyzeCardExpiration tz now (Some s) \<noteq> None"
proof -
  from assms obtain e where e: "parseExpirationDate tz (Some s) = Some e"
    by (simp add: parse_four_chars)
  then show "parseExpirationDate tz (Some s) \<noteq> None" by simp
  from e show "analyzeCardExpiration tz now (Some s) \<noteq> None"
    by (simp add: analyzeCardExpiration_def Let_def)
qed

text \<open>
  Claim C5 asks for the outcome of an absent code (\<open>null\<close>, no expiration) for every code
  of four characters with a month out of range or a character that is no digit, and the
  comment of \<open>parseExpirationDate\<close> promises \<open>null\<close> for invalid expiration dates. The code
  does otherwise. With the clock at 15 November 2026 (UTC): the code \<open>0025\<close>, month 00,
  resolves to 31 December 2024 and is classified expired, 684 days overdue; the code
  \<open>1326\<close>, month 13, resolves to 31 January 2027 and is classified expiring-later, 77 days
  ahead; the code \<open>1a26\<close> is read as month 1 of 2026 and is classified expired, 288 days
  overdue; an absent code gives \<open>null\<close>.
\<close>

theorem C5_malformed_codes_resolved:
  "analyzeCardExpiration 0 1794700800000 (Some (str ''0025''))
     = Some \<lparr>status = Expired, daysUntilExpiration = Num (- 684),
             expirationDate = Num 1735603200000, warningLevel = Critical\<rparr>
   \<and> analyzeCardExpiration 0 1794700800000 (Some (str ''1326''))
     = Some \<lparr>status = ExpiringLater, daysUntilExpiration = Num 77,
             expirationDate = Num 1801353600000, warningLevel = Warning\<rparr>
   \<and> analyzeCardExpiration 0 1794700800000 (Some (str ''1a26''))
     = Some \<lparr>status = Expired, daysUntilExpiration = Num (- 288),
             expirationDate = Num 1769817600000, warningLevel = Critical\<rparr>
   \<and> analyzeCardExpiration 0 1794700800000 None = None
   \<and> getFullYear 0 (Num 1735603200000) = Num 2024
   \<and> getMonth 0 (Num 1735603200000) = Num 11
   \<and> getDate 0 (Num 1735603200000) = Num 31"
  by (intro conjI; code_simp)


section \<open>The worked example of November 2026\<close>

lemma day_of_15_november_2026:
  assumes "yearFromDay d = 2026" "monthFromDay d = 10" "dateFromDay d = 15"
  shows "d = 20772"
proof -
  have start: "dayFromYear 2026 = 20454" by (simp add: dayFromYear_def)
  have leap: "\<not> inLeapYear 2026" by (simp add: inLeapYear_def)
  have "dateFromDay d = dayWithinYear d - monthStart 10 False + 1"
    using assms(1,2) leap by (simp add: dateFromDay_def)
  with assms(3) have "dayWithinYear d = 318" by (simp add: monthStart_def)
  then show ?thesis using assms(1) start by (simp add: dayWithinYear_def)
qed

lemma days_until_by_day:
  "getDaysUntilExpiration now (Num (e * msPerDay - tz)) = Num (e - (now + tz) div msPerDay)"
proof -
  have shift: "(now + tz + msPerDay * (- e)) div msPerDay = - e + (now + tz) div msPerDay"
    by (rule div_mult_self2) (simp add: msPerDay_def)
  have eq: "- (e * msPerDay - tz - now) = now + tz + msPerDay * (- e)"
    by (simp add: algebra_simps)
  have "- ((- (e * msPerDay - tz - now)) div msPerDay) = e - (now + tz) div msPerDay"
    unfolding eq shift by simp
  then show ?thesis
    by (simp only: getDaysUntilExpiration_def getTime_def Let_def num_sub.simps ceil_quot.simps)
qed

text \<open>
  Claim C8, as stated, fails: at midnight UTC of 15 November 2026 the code \<open>1226\<close> has 46
  days left, and its status is not expiring-soon.
\<close>

theorem C8_counterexample:
  "map_option daysUntilExpiration
      (analyzeCardExpiration 0 1794700800000 (Some (str ''1226''))) = Some (Num 46)
   \<and> map_option status
      (analyzeCardExpiration 0 1794700800000 (Some (str ''1226''))) \<noteq> Some ExpiringSoon"
  by code_simp

text \<open>
  Claim C8, amended. For a clock reading anywhere in the local day 15 November 2026, the
  code \<open>1226\<close> resolves to 31 December 2026, with 46 days left, status expiring-later and
  warning level warning.
\<close>

theorem C8_december_2026:
  assumes "\<bar>tz\<bar> \<le> msPerDay"
    and "getFullYear tz (Num now) = Num 2026"
    and "getMonth tz (Num now) = Num 10"
    and "getDate tz (Num now) = Num 15"
  shows "\<exists>e. analyzeCardExpiration tz now (Some (str ''1226'')) =
           Some \<lparr>status = ExpiringLater, daysUntilExpiration = Num 46,
                 expirationDate = Num e, warningLevel = Warning\<rparr>
           \<and> getFullYear tz (Num e) = Num 2026 \<and> getMonth tz (Num e) = Num 11
           \<and> getDate tz (Num e) = Num 31"
proof -
  have code: "mmyy 12 26 = str ''1226''" by (simp add: mmyy_def digit_def str_def)
  have "(12::nat) \<le> 99" "(26::nat) \<le> 99" by simp_all
  note v = parse_mmyy_value [OF this assms(1)]
  have day: "makeDay 2026 11 31 = 20818"
    by (simp add: makeDay_def dayFromYear_def monthStart_def inLeapYear_def)
  have ym: "2000 + int 26 + (int 12 - 1) div 12 = 2026" "(int 12 - 1) mod 12 = 11"
    "lastDayOfMonth 2026 (11 + 1) = 31"
    by (simp_all add: lastDayOfMonth_def)
  let ?e = "20818 * msPerDay - tz"
  have p: "parseExpirationDate tz (Some (str ''1226'')) = Some (Num ?e)"
    using v(1) unfolding ym day code .
  have fields: "getFullYear tz (Num ?e) = Num 2026" "getMonth tz (Num ?e) = Num 11"
    "getDate tz (Num ?e) = Num 31"
    using v(2,3,4) unfolding ym day by simp_all
  have "(now + tz) div msPerDay = 20772"
    using assms(2,3,4) by (intro day_of_15_november_2026) simp_all
  then have "getDaysUntilExpiration now (Num ?e) = Num 46"
    by (simp add: days_until_by_day)
  then have "analyzeCardExpiration tz now (Some (str ''1226'')) =
           Some \<lparr>status = ExpiringLater, daysUntilExpiration = Num 46,
                 expirationDate = Num ?e, warningLevel = Warning\<rparr>"
    by (simp add: analyzeCardExpiration_def p)
  with fields show ?thesis by (intro exI [of _ ?e]) simp
qed

theorem C8_december_2026_witness:
  "\<bar>0\<bar> \<le> msPerDay \<and> getFullYear 0 (Num 1794700800000) = Num 2026
   \<and> getMonth 0 (Num 1794700800000) = Num 10 \<and> getDate 0 (Num 1794700800000) = Num 15
   \<and> (\<exists>e. analyzeCardExpiration 0 1794700800000 (Some (str ''1226'')) =
           Some \<lparr>status = ExpiringLater, daysUntilExpiration = Num 46,
                 expirationDate = Num e, warningLevel = Warning\<rparr>)"
proof -
  have h: "\<bar>0\<bar> \<le> msPerDay" by (simp add: msPerDay_def)
  have y: "getFullYear 0 (Num 1794700800000) = Num 2026" by code_simp
  have m: "getMonth 0 (Num 1794700800000) = Num 10" by code_simp
  have d: "getDate 0 (Num 1794700800000) = Num 15" by code_simp
  from C8_december_2026 [OF h y m d] h y m d show ?thesis by blast
qed


section \<open>The client status classifier\<close>

lemma requiresAction_iff:
  "requiresAction (analyzeClientStatus now c analysis) \<longleftrightarrow>
     statusTag (analyzeClientStatus now c analysis) \<in> {ExpiredCards, ExpiringCards, NewNeedsPayment}"
  by (simp add: analyzeClientStatus_def Let_def split: option.splits)

lemma floor_quot_floor:
  "a div msPerDay = \<lfloor>real_of_int a / real_of_int msPerDay\<rfloor>"
  by (simp add: floor_divide_of_int_eq)

lemma getDaysSinceCreated_valid:
  assumes "\<bar>t\<bar> \<le> 8640000000000000"
  shows "getDaysSinceCreated now t = Num \<lfloor>real_of_int (now - t) / real_of_int msPerDay\<rfloor>"
  using assms
  by (simp only: getDaysSinceCreated_def newDateOfValue_def timeClip_def getTime_def Let_def
      if_True num_sub.simps floor_quot.simps floor_quot_floor)

lemma getDaysSinceCreated_invalid:
  assumes "8640000000000000 < \<bar>t\<bar>"
  shows "getDaysSinceCreated now t = NaN"
  using assms
  by (simp add: getDaysSinceCreated_def newDateOfValue_def timeClip_def getTime_def Let_def)

text \<open>
  Claim C3, for every customer, with or without an analysis of its cards. The customer
  has cards when its \<open>cards\<close> field is a non-empty array or holds a non-empty \<open>elements\<close>
  array. Its creation timestamp is \<open>createdTime\<close>, or else \<open>customerSince\<close>, where a
  timestamp 0 counts as none, as in JavaScript's \<open>||\<close> and \<open>!\<close>. Without a timestamp the
  status is all-good with cards and inactive-old without, priority none. With one: cards
  and an expired card give expired-cards, critical; cards and an expiring-soon card but
  none expired give expiring-cards, high; cards without an expired or expiring-soon one
  give all-good, none. For a timestamp in the range of \<open>Date\<close> the age is the floor of
  \<open>now\<close> minus it, in days; then no cards and age at most 180 give new-needs-payment,
  high; no cards and age above 365 give inactive-old, none; no cards and age from 181 to
  365 give inactive-old, low. A timestamp beyond the range of \<open>Date\<close> (more than 100 000 000 days
  from the epoch) has no age: the day count is \<open>NaN\<close> and a customer without cards is
  inactive-old, low. \<open>requiresAction\<close> holds exactly for expired-cards, expiring-cards and
  new-needs-payment, and \<open>getCustomersRequiringAction\<close> keeps exactly the customers with
  these statuses.
\<close>

theorem C3_client_status:
  fixes c :: "'a Customer_scheme" and now :: int and analysis :: "CardAnalysis list option"
    and population :: "CustomerMaybeAnalysed list"
  defines "r \<equiv> analyzeClientStatus now c analysis"
    and "withCards \<equiv>
           (case cards c of Flat cs \<Rightarrow> cs \<noteq> [] | Nested es \<Rightarrow> es \<noteq> [] | NoCards \<Rightarrow> False)"
    and "created \<equiv>
           (if createdTime c \<notin> {None, Some 0} then createdTime c
            else if customerSince c \<notin> {None, Some 0} then customerSince c
            else None)"
    and "anyExpired \<equiv>
           (case analysis of None \<Rightarrow> False
            | Some as \<Rightarrow> \<exists>a\<in>set as. status (expiration a) = Expired)"
    and "anyExpiringSoon \<equiv>
           (case analysis of None \<Rightarrow> False
            | Some as \<Rightarrow> \<exists>a\<in>set as. status (expiration a) = ExpiringSoon)"
  shows "(created = None \<longrightarrow>
            statusTag r = (if withCards then AllGood else InactiveOld)
            \<and> priority r = NoPriority)
       \<and> (\<forall>t. created = Some t \<longrightarrow>
               (withCards \<and> anyExpired \<longrightarrow>
                  statusTag r = ExpiredCards \<and> priority r = CriticalPriority)
             \<and> (withCards \<and> anyExpiringSoon \<and> \<not> anyExpired \<longrightarrow>
                  statusTag r = ExpiringCards \<and> priority r = HighPriority)
             \<and> (withCards \<and> \<not> anyExpired \<and> \<not> anyExpiringSoon \<longrightarrow>
                  statusTag r = AllGood \<and> priority r = NoPriority)
             \<and> (\<bar>t\<bar> \<le> 8640000000000000 \<longrightarrow>
                  (let age = \<lfloor>real_of_int (now - t) / real_of_int msPerDay\<rfloor> in
                     daysOld r = Num age
                   \<and> (\<not> withCards \<and> age \<le> 180 \<longrightarrow>
                        statusTag r = NewNeedsPayment \<and> priority r = HighPriority)
                   \<and> (\<not> withCards \<and> 365 < age \<longrightarrow>
                        statusTag r = InactiveOld \<and> priority r = NoPriority)
                   \<and> (\<not> withCards \<and> 180 < age \<and> age \<le> 365 \<longrightarrow>
                        statusTag r = InactiveOld \<and> priority r = LowPriority)))
             \<and> (8640000000000000 < \<bar>t\<bar> \<longrightarrow>
                  daysOld r = NaN
                  \<and> (\<not> withCards \<longrightarrow>
                        statusTag r = InactiveOld \<and> priority r = LowPriority)))
       \<and> (requiresAction r \<longleftrightarrow>
            statusTag r \<in> {ExpiredCards, ExpiringCards, NewNeedsPayment})
       \<and> hasCards r = withCards
       \<and> getCustomersRequiringAction (analyzeCustomersWithStatus now population) =
           filter (\<lambda>x. statusTag (clientStatus x) \<in> {ExpiredCards, ExpiringCards, NewNeedsPayment})
             (analyzeCustomersWithStatus now population)"
proof -
  have wc: "hasPaymentMethods c = withCards"
    by (simp add: hasPaymentMethods_def withCards_def split: CardsField.splits)
  have cr: "(if truthy (or_else (createdTime c) (customerSince c))
             then or_else (createdTime c) (customerSince c) else None) = created"
    by (auto simp: or_else_def truthy_def created_def split: option.splits)
  have ex: "anyExpired \<longleftrightarrow> analysis \<noteq> None \<and>
      (case analysis of None \<Rightarrow> False
       | Some as \<Rightarrow> list_ex (\<lambda>a. status (expiration a) = Expired) as)"
    by (auto simp: anyExpired_def list_ex_iff split: option.splits)
  have so: "anyExpiringSoon \<longleftrightarrow> analysis \<noteq> None \<and>
      (case analysis of None \<Rightarrow> False
       | Some as \<Rightarrow> list_ex (\<lambda>a. status (expiration a) = ExpiringSoon) as)"
    by (auto simp: anyExpiringSoon_def list_ex_iff split: option.splits)
  have none: "statusTag r = (if withCards then AllGood else InactiveOld)
            \<and> priority r = NoPriority" if "created = None"
    using that by (simp add: r_def analyzeClientStatus_def cr wc Let_def)
  have cards: "(withCards \<and> anyExpired \<longrightarrow>
                  statusTag r = ExpiredCards \<and> priority r = CriticalPriority)
             \<and> (withCards \<and> anyExpiringSoon \<and> \<not> anyExpired \<longrightarrow>
                  statusTag r = ExpiringCards \<and> priority r = HighPriority)
             \<and> (withCards \<and> \<not> anyExpired \<and> \<not> anyExpiringSoon \<longrightarrow>
                  statusTag r = AllGood \<and> priority r = NoPriority)"
    if t: "created = Some t" for t
    unfolding ex so
    by (simp add: r_def analyzeClientStatus_def cr t wc Let_def)
  have aged: "daysOld r = Num age
             \<and> (\<not> withCards \<and> age \<le> 180 \<longrightarrow>
                  statusTag r = NewNeedsPayment \<and> priority r = HighPriority)
             \<and> (\<not> withCards \<and> 365 < age \<longrightarrow>
                  statusTag r = InactiveOld \<and> priority r = NoPriority)
             \<and> (\<not> withCards \<and> 180 < age \<and> age \<le> 365 \<longrightarrow>
                  statusTag r = InactiveOld \<and> priority r = LowPriority)"
    if t: "created = Some t" and range: "\<bar>t\<bar> \<le> 8640000000000000"
      and age: "age = \<lfloor>real_of_int (now - t) / real_of_int msPerDay\<rfloor>"
    for t age
  proof -
    from range have d: "getDaysSinceCreated now t = Num age"
      unfolding age by (rule getDaysSinceCreated_valid)
    show ?thesis
      by (simp add: r_def analyzeClientStatus_def cr t d wc Let_def)
  qed
  have outside: "daysOld r = NaN
      \<and> (\<not> withCards \<longrightarrow> statusTag r = InactiveOld \<and> priority r = LowPriority)"
    if t: "created = Some t" and range: "8640000000000000 < \<bar>t\<bar>" for t
  proof -
    from range have d: "getDaysSinceCreated now t = NaN"
      by (rule getDaysSinceCreated_invalid)
    show ?thesis
      by (simp add: r_def analyzeClientStatus_def cr t d wc Let_def)
  qed
  have "hasCards r = withCards"
    by (simp add: r_def analyzeClientStatus_def wc Let_def split: option.splits)
  moreover have "getCustomersRequiringAction (analyzeCustomersWithStatus now population) =
           filter (\<lambda>x. statusTag (clientStatus x) \<in> {ExpiredCards, ExpiringCards, NewNeedsPayment})
             (analyzeCustomersWithStatus now population)"
    unfolding getCustomersRequiringAction_def
    by (rule filter_cong) (auto simp: analyzeCustomersWithStatus_def requiresAction_iff)
  ultimately show ?thesis
    using none cards aged outside requiresAction_iff [of now c analysis]
    unfolding r_def [symmetric] Let_def by blast
qed

theorem C3_client_status_witness:
  "analyzeClientStatus 1794700800000
         \<lparr>customerId = str ''A1'', customerSince = Some 1786060800000,
           createdTime = Some 0,
           cards = Nested [\<lparr>cardId = None, first6 = None, last4 = None,
                            cardExpirationDate = Some (str ''0125'')\<rparr>]\<rparr>
         (Some [\<lparr>card = \<lparr>cardId = None, first6 = None, last4 = None,
                           cardExpirationDate = Some (str ''0125'')\<rparr>,
                  expiration = \<lparr>status = Expired, daysUntilExpiration = Num (- 653),
                     expirationDate = Num 1738281600000, warningLevel = Critical\<rparr>\<rparr>])
       = \<lparr>statusTag = ExpiredCards, priority = CriticalPriority, daysOld = Num 100,
          hasCards = True, requiresAction = True,
          actionMessage = str ''URGENT: Customer has expired credit cards''\<rparr>"
proof -
  let ?k = "\<lparr>cardId = None, first6 = None, last4 = None,
             cardExpirationDate = Some (str ''0125'')\<rparr>"
  let ?c = "\<lparr>customerId = str ''A1'', customerSince = Some 1786060800000,
              createdTime = Some 0, cards = Nested [?k]\<rparr>"
  let ?a = "Some [\<lparr>card = ?k,
                  expiration = \<lparr>status = Expired, daysUntilExpiration = Num (- 653),
                     expirationDate = Num 1738281600000, warningLevel = Critical\<rparr>\<rparr>]"
  have msg: "actionMessage (analyzeClientStatus 1794700800000 ?c ?a)
               = str ''URGENT: Customer has expired credit cards''"
    by (simp add: analyzeClientStatus_def or_else_def truthy_def hasPaymentMethods_def
        getDaysSinceCreated_def newDateOfValue_def timeClip_def getTime_def msPerDay_def)
  from C3_client_status [of ?c 1794700800000 ?a "[]"]
  have "statusTag (analyzeClientStatus 1794700800000 ?c ?a) = ExpiredCards"
    "priority (analyzeClientStatus 1794700800000 ?c ?a) = CriticalPriority"
    "daysOld (analyzeClientStatus 1794700800000 ?c ?a) = Num 100"
    "hasCards (analyzeClientStatus 1794700800000 ?c ?a) = True"
    "requiresAction (analyzeClientStatus 1794700800000 ?c ?a) = True"
    by (auto simp: msPerDay_def Let_def)
  with msg show ?thesis
    by (intro conjI ClientStatus.equality) simp_all
qed


section \<open>The summary and the analysis of a population\<close>

lemma foldl_add_sum_list:
  fixes f :: "'a \<Rightarrow> nat"
  shows "foldl (\<lambda>sum c. sum + f c) a xs = a + sum_list (map f xs)"
  by (induction xs arbitrary: a) simp_all

lemma filterByStatus_single:
  "filterByStatus customers [s] =
     filter (\<lambda>c. \<exists>a\<in>set (expirationAnalysis c). status (expiration a) = s) customers"
  unfolding filterByStatus_def
  by (rule filter_cong) (auto simp: list_ex_iff)

lemma bucket_counts:
  "bucket flagged =
     \<lparr>customerCount = length flagged,
      cardCount = (\<Sum>c\<leftarrow>flagged. length (expirationAnalysis c))\<rparr>"
  by (simp add: bucket_def foldl_add_sum_list)

lemma totalCards_sum:
  "totalCards (generateSummary customers) =
     (\<Sum>c\<leftarrow>customers. case cards c of Flat l \<Rightarrow> length l | _ \<Rightarrow> 0)"
proof -
  have "length (case cards c of Flat cs \<Rightarrow> cs | _ \<Rightarrow> []) =
        (case cards c of Flat l \<Rightarrow> length l | _ \<Rightarrow> 0)" for c :: CustomerWithExpiration
    by (simp split: CardsField.splits)
  then show ?thesis
    by (simp add: generateSummary_def foldl_add_sum_list)
qed

text \<open>
  Claim C6. The summary counts the customers; its total of cards is the sum of the lengths
  of the customers' raw \<open>cards\<close> arrays (a \<open>cards\<close> field that is not an array adds
  nothing, see claim C10); and for each of expired, expiring-soon and expiring-later, the
  customer count is the number of customers with at least one record of that status, and
  the card count is the number of all classification records of those customers.
\<close>

theorem C6_summary_counts:
  fixes customers :: "CustomerWithExpiration list"
  defines "flagged \<equiv> (\<lambda>s. filter (\<lambda>c. \<exists>a\<in>set (expirationAnalysis c).
                                      status (expiration a) = s) customers)"
  shows "totalCustomers (generateSummary customers) = length customers
       \<and> totalCards (generateSummary customers)
           = (\<Sum>c\<leftarrow>customers. case cards c of Flat l \<Rightarrow> length l | _ \<Rightarrow> 0)
       \<and> expired (generateSummary customers)
           = \<lparr>customerCount = length (flagged Expired),
              cardCount = (\<Sum>c\<leftarrow>flagged Expired. length (expirationAnalysis c))\<rparr>
       \<and> expiringSoon (generateSummary customers)
           = \<lparr>customerCount = length (flagged ExpiringSoon),
              cardCount = (\<Sum>c\<leftarrow>flagged ExpiringSoon. length (expirationAnalysis c))\<rparr>
       \<and> expiringLater (generateSummary customers)
           = \<lparr>customerCount = length (flagged ExpiringLater),
              cardCount = (\<Sum>c\<leftarrow>flagged ExpiringLater. length (expirationAnalysis c))\<rparr>"
  unfolding flagged_def totalCards_sum
  by (simp add: generateSummary_def getExpiredCards_def getExpiringSoonCards_def
      getExpiringLaterCards_def filterByStatus_single bucket_counts)

theorem C6_summary_counts_witness:
  "generateSummary
     (analyzeCustomers 0 1794700800000
        [\<lparr>customerId = str ''A'', customerSince = None, createdTime = None,
           cards = Flat [\<lparr>cardId = None, first6 = None, last4 = None,
                           cardExpirationDate = Some (str ''0125'')\<rparr>,
                         \<lparr>cardId = None, first6 = None, last4 = None,
                           cardExpirationDate = Some (str ''0226'')\<rparr>,
                         \<lparr>cardId = None, first6 = None, last4 = None,
                           cardExpirationDate = None\<rparr>]\<rparr>,
         \<lparr>customerId = str ''B'', customerSince = None, createdTime = None,
           cards = Flat []\<rparr>])
   = \<lparr>totalCustomers = 2, totalCards = 3,
      expired = \<lparr>customerCount = 1, cardCount = 3\<rparr>,
      expiringSoon = \<lparr>customerCount = 0, cardCount = 0\<rparr>,
      expiringLater = \<lparr>customerCount = 0, cardCount = 0\<rparr>\<rparr>"
proof -
  let ?k1 = "\<lparr>cardId = None, first6 = None, last4 = None,
               cardExpirationDate = Some (str ''0125'')\<rparr>"
  let ?k2 = "\<lparr>cardId = None, first6 = None, last4 = None,
               cardExpirationDate = Some (str ''0226'')\<rparr>"
  let ?k3 = "\<lparr>cardId = None, first6 = None, last4 = None,
               cardExpirationDate = None :: jsstring option\<rparr>"
  let ?A = "\<lparr>customerId = str ''A'', customerSince = None, createdTime = None,
              cards = Flat [?k1, ?k2, ?k3]\<rparr>"
  let ?B = "\<lparr>customerId = str ''B'', customerSince = None, createdTime = None,
              cards = Flat []\<rparr>"
  have s1: "map_option status (analyzeCardExpiration 0 1794700800000 (Some (str ''0125''))) = Some Expired"
    by code_simp
  have s2: "map_option status (analyzeCardExpiration 0 1794700800000 (Some (str ''0226''))) = Some Expired"
    by code_simp
  have s3: "analyzeCardExpiration 0 1794700800000 None = None"
    by (simp add: analyzeCardExpiration_def parseExpirationDate_def)
  have st: "status (expiration (analyzeCard 0 1794700800000 ?k1)) = Expired"
    "status (expiration (analyzeCard 0 1794700800000 ?k2)) = Expired"
    "status (expiration (analyzeCard 0 1794700800000 ?k3)) = Valid"
    using s1 s2 s3 by (auto simp: analyzeCard_def fallbackExpiration_def split: option.splits)
  let ?P = "[\<lparr>customerId = str ''A'', customerSince = None, createdTime = None,
               cards = Flat [?k1, ?k2, ?k3],
               expirationAnalysis = [analyzeCard 0 1794700800000 ?k1,
                 analyzeCard 0 1794700800000 ?k2, analyzeCard 0 1794700800000 ?k3]\<rparr>,
             \<lparr>customerId = str ''B'', customerSince = None, createdTime = None,
               cards = Flat [], expirationAnalysis = []\<rparr>]"
  have ev: "analyzeCustomers 0 1794700800000 [?A, ?B] = ?P"
    by (simp add: analyzeCustomers_def analyzeCustomer_def)
  note C = C6_summary_counts [of ?P]
  show ?thesis
    unfolding ev by (rule Summary.equality) (simp_all add: C st)
qed


lemma parse_None_iff:
  "parseExpirationDate tz code = None \<longleftrightarrow>
     code = None \<or> (\<exists>s. code = Some s \<and> length s \<noteq> 4)"
  by (auto simp: parseExpirationDate_def Let_def split: option.splits)

lemma analyze_None_iff:
  "analyzeCardExpiration tz now code = None \<longleftrightarrow> parseExpirationDate tz code = None"
  by (simp add: analyzeCardExpiration_def Let_def split: option.splits)

text \<open>
  The fallback of \<open>analyzeCustomers\<close>. The codec returns \<open>null\<close> exactly for an absent
  code and for a code whose length is not 4. Every card of an analysed customer whose
  code the codec rejects gets the record with status valid, 999999 days and the date
  2099-12-31 (midnight UTC); every record of every analysed customer has one of the four
  statuses expired, expiring-soon, expiring-later and valid, and is that sentinel record
  whenever the classifier returned \<open>null\<close> for its card.
\<close>

lemma rejected_code_sentinel:
  "(parseExpirationDate tz code = None \<longleftrightarrow>
      code = None \<or> (\<exists>s. code = Some s \<and> length s \<noteq> 4))
   \<and> (c \<in> set customers \<and> k \<in> set (case cards c of Flat l \<Rightarrow> l | Nested l \<Rightarrow> l | NoCards \<Rightarrow> [])
        \<and> parseExpirationDate tz (cardExpirationDate k) = None \<longrightarrow>
        (\<exists>a \<in> set (analyzeCustomers tz now customers).
           customerId a = customerId c
           \<and> \<lparr>card = k,
               expiration = \<lparr>status = Valid, daysUntilExpiration = Num 999999,
                              expirationDate = Num 4102358400000,
                              warningLevel = NoWarning\<rparr>\<rparr> \<in> set (expirationAnalysis a)))
   \<and> (\<forall>a \<in> set (analyzeCustomers tz now customers).
        \<forall>e \<in> set (expirationAnalysis a).
          status (expiration e) \<in> {Expired, ExpiringSoon, ExpiringLater, Valid}
          \<and> (analyzeCardExpiration tz now (cardExpirationDate (card e)) = None \<longrightarrow>
               expiration e = \<lparr>status = Valid, daysUntilExpiration = Num 999999,
                                 expirationDate = Num 4102358400000,
                                 warningLevel = NoWarning\<rparr>))
   \<and> getFullYear 0 (Num 4102358400000) = Num 2099
   \<and> getMonth 0 (Num 4102358400000) = Num 11
   \<and> getDate 0 (Num 4102358400000) = Num 31"
proof (intro conjI impI ballI)
  show "parseExpirationDate tz code = None \<longleftrightarrow>
      code = None \<or> (\<exists>s. code = Some s \<and> length s \<noteq> 4)"
    by (rule parse_None_iff)
next
  assume a: "c \<in> set customers \<and> k \<in> set (case cards c of Flat l \<Rightarrow> l | Nested l \<Rightarrow> l | NoCards \<Rightarrow> [])
        \<and> parseExpirationDate tz (cardExpirationDate k) = None"
  then have "analyzeCardExpiration tz now (cardExpirationDate k) = None"
    by (simp add: analyze_None_iff)
  then have "analyzeCard tz now k =
      \<lparr>card = k, expiration = \<lparr>status = Valid, daysUntilExpiration = Num 999999,
                              expirationDate = Num 4102358400000,
                              warningLevel = NoWarning\<rparr>\<rparr>"
    by (simp add: analyzeCard_def fallbackExpiration_def)
  moreover have "analyzeCard tz now k \<in> set (expirationAnalysis (analyzeCustomer tz now c))"
    using a by (simp add: analyzeCustomer_def)
  moreover have "analyzeCustomer tz now c \<in> set (analyzeCustomers tz now customers)"
    using a by (simp add: analyzeCustomers_def)
  moreover have "customerId (analyzeCustomer tz now c) = customerId c"
    by (simp add: analyzeCustomer_def)
  ultimately show "\<exists>a \<in> set (analyzeCustomers tz now customers).
           customerId a = customerId c
           \<and> \<lparr>card = k,
               expiration = \<lparr>status = Valid, daysUntilExpiration = Num 999999,
                              expirationDate = Num 4102358400000,
                              warningLevel = NoWarning\<rparr>\<rparr> \<in> set (expirationAnalysis a)"
    by (intro bexI [of _ "analyzeCustomer tz now c"]) simp_all
next
  fix a e
  show "status (expiration e) \<in> {Expired, ExpiringSoon, ExpiringLater, Valid}"
    by (cases "status (expiration e)") simp_all
next
  fix a e
  assume "a \<in> set (analyzeCustomers tz now customers)" "e \<in> set (expirationAnalysis a)"
    and n: "analyzeCardExpiration tz now (cardExpirationDate (card e)) = None"
  then obtain k where "e = analyzeCard tz now k"
    by (auto simp: analyzeCustomers_def analyzeCustomer_def)
  with n show "expiration e = \<lparr>status = Valid, daysUntilExpiration = Num 999999,
                                 expirationDate = Num 4102358400000,
                                 warningLevel = NoWarning\<rparr>"
    by (simp add: analyzeCard_def fallbackExpiration_def)
next
  show "getFullYear 0 (Num 4102358400000) = Num 2099" by code_simp
  show "getMonth 0 (Num 4102358400000) = Num 11" by code_simp
  show "getDate 0 (Num 4102358400000) = Num 31" by code_simp
qed

text \<open>
  Claim C9 asks for the sentinel record (valid, 999999 days, 2099-12-31) for every card
  whose code is absent or fails to parse, and the comment of \<open>parseExpirationDate\<close>
  promises \<open>null\<close>, hence the sentinel, for invalid expiration dates. The code does
  otherwise for a code of four characters that is no number. With the clock at 15
  November 2026 (UTC), a customer with one card of code \<open>ab25\<close> and one card without a code
  gets two records: the first has status valid with \<open>NaN\<close> as day count and an invalid
  date, only the second is the sentinel.
\<close>

theorem C9_unparsable_code_not_sentinel:
  "map expirationAnalysis (analyzeCustomers 0 1794700800000
     [\<lparr>customerId = str ''A'', customerSince = None, createdTime = None,
       cards = Flat [\<lparr>cardId = Some (str ''K1''), first6 = None, last4 = None,
                       cardExpirationDate = Some (str ''ab25'')\<rparr>,
                     \<lparr>cardId = Some (str ''K2''), first6 = None, last4 = None,
                       cardExpirationDate = None\<rparr>]\<rparr>])
   = [[\<lparr>card = \<lparr>cardId = Some (str ''K1''), first6 = None, last4 = None,
                  cardExpirationDate = Some (str ''ab25'')\<rparr>,
         expiration = \<lparr>status = Valid, daysUntilExpiration = NaN,
                        expirationDate = NaN, warningLevel = NoWarning\<rparr>\<rparr>,
       \<lparr>card = \<lparr>cardId = Some (str ''K2''), first6 = None, last4 = None,
                  cardExpirationDate = None\<rparr>,
         expiration = \<lparr>status = Valid, daysUntilExpiration = Num 999999,
                        expirationDate = Num 4102358400000, warningLevel = NoWarning\<rparr>\<rparr>]]"
  by code_simp

text \<open>
  Claim C10. A customer whose \<open>k\<close> cards arrive in the nested shape gets \<open>k\<close>
  classification records, adds nothing to the total card count of the summary, and adds
  \<open>k\<close> to the card count of every status bucket in which one of its cards falls.
\<close>

theorem C10_nested_cards_not_in_total:
  fixes c :: Customer and tz now :: int and es :: "CustomerCard list"
  assumes "cards c = Nested es"
  defines "withC \<equiv> (\<lambda>pre post. generateSummary (analyzeCustomers tz now (pre @ c # post)))"
    and "without \<equiv> (\<lambda>pre post. generateSummary (analyzeCustomers tz now (pre @ post)))"
    and "hasStatus \<equiv> (\<lambda>s. \<exists>k\<in>set es. status (expiration (analyzeCard tz now k)) = s)"
  shows "length (expirationAnalysis (analyzeCustomer tz now c)) = length es
       \<and> totalCards (withC pre post) = totalCards (without pre post)
       \<and> (hasStatus Expired \<longrightarrow>
            cardCount (expired (withC pre post))
              = cardCount (expired (without pre post)) + length es)
       \<and> (hasStatus ExpiringSoon \<longrightarrow>
            cardCount (expiringSoon (withC pre post))
              = cardCount (expiringSoon (without pre post)) + length es)
       \<and> (hasStatus ExpiringLater \<longrightarrow>
            cardCount (expiringLater (withC pre post))
              = cardCount (expiringLater (without pre post)) + length es)"
proof -
  have an: "expirationAnalysis (analyzeCustomer tz now c) = map (analyzeCard tz now) es"
    and cs: "cards (analyzeCustomer tz now c) = Nested es"
    using assms(1) by (simp_all add: analyzeCustomer_def)
  have flag: "(\<exists>a\<in>set (expirationAnalysis (analyzeCustomer tz now c)).
                 status (expiration a) = s) \<longleftrightarrow> hasStatus s" for s
    by (auto simp: an hasStatus_def)
  show ?thesis
    unfolding withC_def without_def totalCards_sum
    by (simp add: generateSummary_def getExpiredCards_def getExpiringSoonCards_def
        getExpiringLaterCards_def filterByStatus_single bucket_counts analyzeCustomers_def
        flag cs) (simp add: an)
qed

theorem C10_nested_cards_not_in_total_witness:
  "cards \<lparr>customerId = str ''A'', customerSince = None, createdTime = None,
           cards = Nested [\<lparr>cardId = None, first6 = None, last4 = None,
                             cardExpirationDate = Some (str ''0125'')\<rparr>]\<rparr>
     = Nested [\<lparr>cardId = None, first6 = None, last4 = None,
                 cardExpirationDate = Some (str ''0125'')\<rparr>]
   \<and> totalCards (generateSummary (analyzeCustomers 0 1794700800000
        [\<lparr>customerId = str ''A'', customerSince = None, createdTime = None,
           cards = Nested [\<lparr>cardId = None, first6 = None, last4 = None,
                             cardExpirationDate = Some (str ''0125'')\<rparr>]\<rparr>])) = 0
   \<and> cardCount (expired (generateSummary (analyzeCustomers 0 1794700800000
        [\<lparr>customerId = str ''A'', customerSince = None, createdTime = None,
           cards = Nested [\<lparr>cardId = None, first6 = None, last4 = None,
                             cardExpirationDate = Some (str ''0125'')\<rparr>]\<rparr>]))) = 1"
proof -
  let ?k = "\<lparr>cardId = None, first6 = None, last4 = None,
              cardExpirationDate = Some (str ''0125'')\<rparr>"
  let ?c = "\<lparr>customerId = str ''A'', customerSince = None, createdTime = None,
              cards = Nested [?k]\<rparr>"
  have h: "cards ?c = Nested [?k]" by simp
  have s1: "map_option status (analyzeCardExpiration 0 1794700800000 (Some (str ''0125'')))
              = Some Expired"
    by code_simp
  then have st: "status (expiration (analyzeCard 0 1794700800000 ?k)) = Expired"
    by (auto simp: analyzeCard_def split: option.splits)
  have e: "generateSummary (analyzeCustomers 0 1794700800000 ([] @ [])) =
             \<lparr>totalCustomers = 0, totalCards = 0,
              expired = \<lparr>customerCount = 0, cardCount = 0\<rparr>,
              expiringSoon = \<lparr>customerCount = 0, cardCount = 0\<rparr>,
              expiringLater = \<lparr>customerCount = 0, cardCount = 0\<rparr>\<rparr>"
    by (simp add: generateSummary_def analyzeCustomers_def bucket_def getExpiredCards_def
        getExpiringSoonCards_def getExpiringLaterCards_def filterByStatus_def)
  from C10_nested_cards_not_in_total [OF h, of 0 1794700800000 "[]" "[]"] st
  show ?thesis
    unfolding e by simp
qed

section \<open>The action-required worklist\<close>

lemma printActionRequired_eq: "printActionRequired now c = actionRequired now c"
  by (simp add: printActionRequired_def actionRequired_def)

lemma trim_Nil_iff: "trim b = [] \<longleftrightarrow> (\<forall>u\<in>set b. isWhiteSpace u)"
proof
  assume "trim b = []"
  then have all: "\<forall>x\<in>set (dropWhile isWhiteSpace b). isWhiteSpace x"
    by (simp add: trim_def dropWhile_eq_Nil_conv)
  have "dropWhile isWhiteSpace b = []"
  proof (rule ccontr)
    assume ne: "dropWhile isWhiteSpace b \<noteq> []"
    then have "\<not> isWhiteSpace (hd (dropWhile isWhiteSpace b))" by (rule hd_dropWhile)
    moreover have "hd (dropWhile isWhiteSpace b) \<in> set (dropWhile isWhiteSpace b)"
      using ne by simp
    ultimately show False using all by blast
  qed
  then show "\<forall>u\<in>set b. isWhiteSpace u" by (simp add: dropWhile_eq_Nil_conv)
next
  assume "\<forall>u\<in>set b. isWhiteSpace u"
  then have d: "dropWhile isWhiteSpace b = []" by (simp add: dropWhile_eq_Nil_conv)
  show "trim b = []" unfolding trim_def d by simp
qed

lemma actionRequired_iff:
  fixes c :: ListedCustomer
  defines "cs \<equiv> (case cards_api c of None \<Rightarrow> [] | Some l \<Rightarrow> l)"
  assumes total: "totalCards_api c = int (length cs)"
    and flag: "hasExpiringSoon c \<longleftrightarrow> (\<exists>k\<in>set cs. status_api k = str ''expiring-soon'')"
    and clock: "7776000000 < now"
  shows "actionRequired now c \<longleftrightarrow>
     (\<exists>b. businessName c = Some b \<and> trim b \<noteq> [])
     \<and> ((\<exists>t. customerSince_api c = Some t
            \<and> (if cs = [] then cleanupDate \<le> t else now - 90 * msPerDay \<le> t))
        \<or> (\<exists>k\<in>set cs. status_api k = str ''expiring-soon'')
        \<or> (\<exists>k\<in>set cs. status_api k = str ''expired'' \<and> \<bar>daysUntil k\<bar> \<le> 180))"
proof -
  have tot: "totalCards_api c > 0 \<longleftrightarrow> cs \<noteq> []"
    using total by simp
  have recent: "(case cards_api c of None \<Rightarrow> False
                 | Some l \<Rightarrow> list_ex (\<lambda>card. if status_api card = str ''expired''
                                  then \<bar>daysUntil card\<bar> \<le> 180 else False) l)
        \<longleftrightarrow> (\<exists>k\<in>set cs. status_api k = str ''expired'' \<and> \<bar>daysUntil k\<bar> \<le> 180)"
    by (auto simp: cs_def list_ex_iff split: option.splits)
  have new: "(case customerSince_api c of None \<Rightarrow> False
              | Some since \<Rightarrow> since \<noteq> 0 \<and>
                  (if totalCards_api c > 0 then since \<ge> threeMonthsAgo now
                   else since \<ge> cleanupDate))
        \<longleftrightarrow> (\<exists>t. customerSince_api c = Some t
            \<and> (if cs = [] then cleanupDate \<le> t else now - 90 * msPerDay \<le> t))"
    using clock
    by (auto simp: tot threeMonthsAgo_def cleanupDate_def msPerDay_def split: option.splits)
  have name: "(\<exists>b. businessName c = Some b \<and> trim b \<noteq> []) \<longleftrightarrow>
      (case businessName c of None \<Rightarrow> False | Some b \<Rightarrow> \<not> (b = [] \<or> trim b = []))"
    by (auto simp: trim_def split: option.splits)
  show ?thesis
    unfolding name recent [symmetric] new [symmetric] flag [symmetric]
    by (auto simp: actionRequired_def Let_def split: option.splits)
qed

text \<open>
  What the loader computes for a customer is consistent with the cards it serves: the
  total is their number, and the two flags are the disjunctions of the statuses.
\<close>

lemma servedCustomer_annotations:
  fixes tz now :: int and customer :: CustomerRow and customerCards :: "CardRow list"
  defines "c \<equiv> servedCustomer tz now customer customerCards"
  shows "cards_api c = Some (map readCard (map (apiCardAnalysis tz now) customerCards))"
    and "totalCards_api c = int (length (case cards_api c of None \<Rightarrow> [] | Some l \<Rightarrow> l))"
    and "hasExpiringSoon c \<longleftrightarrow>
           (\<exists>k\<in>set (case cards_api c of None \<Rightarrow> [] | Some l \<Rightarrow> l).
              status_api k = str ''expiring-soon'')"
    and "hasExpired c \<longleftrightarrow>
           (\<exists>k\<in>set (case cards_api c of None \<Rightarrow> [] | Some l \<Rightarrow> l).
              status_api k = str ''expired'')"
  by (auto simp: c_def servedCustomer_def Let_def list_ex_iff readCard_def)

text \<open>The group of a customer is the list of its card rows, in the order of the query.\<close>

lemma groupByCustomer_filter:
  "(case groupByCustomer cardRows i of None \<Rightarrow> [] | Some l \<Rightarrow> l)
     = filter (\<lambda>k. ownerId k = i) cardRows"
proof (induction cardRows arbitrary: i rule: rev_induct)
  case Nil
  show ?case by (simp add: groupByCustomer_def)
next
  case (snoc k ks)
  have step: "groupByCustomer (ks @ [k]) =
      (groupByCustomer ks)(ownerId k \<mapsto>
         (case groupByCustomer ks (ownerId k) of None \<Rightarrow> [] | Some l \<Rightarrow> l) @ [k])"
    by (simp add: groupByCustomer_def)
  show ?case
    unfolding step using snoc.IH [of i] snoc.IH [of "ownerId k"] by simp
qed

lemma apiCustomers_served:
  assumes "c \<in> set (apiCustomers tz now customers cardRows)"
  obtains customer where "customer \<in> set customers"
    and "c = servedCustomer tz now customer
               (filter (\<lambda>k. ownerId k = rowId customer) cardRows)"
  using assms by (auto simp: apiCustomers_def Let_def groupByCustomer_filter)

text \<open>
  Claim C2. Take as population the customers that the loader of \<open>/api/customers\<close>
  serves, and a clock of the route later than 90 days after the epoch. A customer of the
  population is on the action-required worklist (of the list view and of the print view
  alike) exactly when its business name is present and not blank after trimming, and one
  of these holds: \<open>customerSince\<close> is present and at or after the cleanup cutoff when it
  has no cards, at or after \<open>now\<close> minus 90 days when it has some; one of its cards is
  expiring-soon; one of its cards is expired with at most 180 days in absolute value.
\<close>

theorem C2_action_required_worklist:
  fixes c :: ListedCustomer and now tz serverNow :: int
    and customers :: "CustomerRow list" and cardRows :: "CardRow list"
  defines "population \<equiv> apiCustomers tz serverNow customers cardRows"
    and "cs \<equiv> (case cards_api c of None \<Rightarrow> [] | Some l \<Rightarrow> l)"
  defines "qualifies \<equiv>
     (\<exists>b. businessName c = Some b \<and> trim b \<noteq> [])
     \<and> ((\<exists>t. customerSince_api c = Some t
            \<and> (if cs = [] then cleanupDate \<le> t else now - 90 * msPerDay \<le> t))
        \<or> (\<exists>k\<in>set cs. status_api k = str ''expiring-soon'')
        \<or> (\<exists>k\<in>set cs. status_api k = str ''expired'' \<and> \<bar>daysUntil k\<bar> \<le> 180))"
  assumes "c \<in> set population" and "7776000000 < now"
  shows "(c \<in> set (actionRequiredCustomers now population) \<longleftrightarrow> qualifies)
       \<and> (c \<in> set (printActionRequiredCustomers now population) \<longleftrightarrow> qualifies)"
proof -
  from assms(4) obtain customer
    where c: "c = servedCustomer tz serverNow customer
                    (filter (\<lambda>k. ownerId k = rowId customer) cardRows)"
    unfolding population_def by (rule apiCustomers_served)
  have "actionRequired now c \<longleftrightarrow> qualifies"
    unfolding qualifies_def cs_def
    by (rule actionRequired_iff)
       (simp_all only: c servedCustomer_annotations(2,3) assms(5))
  with assms(4) show ?thesis
    by (simp add: actionRequiredCustomers_def printActionRequiredCustomers_def
        printActionRequired_eq)
qed

theorem C2_action_required_worklist_witness:
  "servedCustomer 0 1794700800000
       \<lparr>rowId = str ''C1'', rowBusinessName = Some (str ''Acme''), rowCustomerSince = None\<rparr>
       [\<lparr>cardId = Some (str ''K1''), first6 = None, last4 = None,
         cardExpirationDate = Some (str ''0926''), ownerId = str ''C1''\<rparr>]
     \<in> set (apiCustomers 0 1794700800000
         [\<lparr>rowId = str ''C1'', rowBusinessName = Some (str ''Acme''), rowCustomerSince = None\<rparr>]
         [\<lparr>cardId = Some (str ''K1''), first6 = None, last4 = None,
           cardExpirationDate = Some (str ''0926''), ownerId = str ''C1''\<rparr>])
   \<and> (7776000000::int) < 1794700800000
   \<and> servedCustomer 0 1794700800000
       \<lparr>rowId = str ''C1'', rowBusinessName = Some (str ''Acme''), rowCustomerSince = None\<rparr>
       [\<lparr>cardId = Some (str ''K1''), first6 = None, last4 = None,
         cardExpirationDate = Some (str ''0926''), ownerId = str ''C1''\<rparr>]
     \<in> set (actionRequiredCustomers 1794700800000
         (apiCustomers 0 1794700800000
           [\<lparr>rowId = str ''C1'', rowBusinessName = Some (str ''Acme''), rowCustomerSince = None\<rparr>]
           [\<lparr>cardId = Some (str ''K1''), first6 = None, last4 = None,
             cardExpirationDate = Some (str ''0926''), ownerId = str ''C1''\<rparr>]))"
proof -
  let ?row = "\<lparr>rowId = str ''C1'', rowBusinessName = Some (str ''Acme''), rowCustomerSince = None\<rparr>"
  let ?k = "\<lparr>cardId = Some (str ''K1''), first6 = None, last4 = None,
         cardExpirationDate = Some (str ''0926''), ownerId = str ''C1''\<rparr>"
  let ?c = "servedCustomer 0 1794700800000 ?row [?k]"
  let ?pop = "apiCustomers 0 1794700800000 [?row] [?k]"
  have m: "?c \<in> set ?pop"
    by (simp add: apiCustomers_def Let_def groupByCustomer_filter)
  have n: "(7776000000::int) < 1794700800000" by simp
  have a: "apiCardAnalysis 0 1794700800000 ?k =
      \<lparr>servedCard = ?k, servedStatus = str ''expired'', servedDaysUntil = Num (- 48)\<rparr>"
    by code_simp
  have cards: "cards_api ?c = Some [\<lparr>card_api = Some (CustomerCard.truncate ?k),
       status_api = str ''expired'', daysUntil = - 48\<rparr>]"
    by (simp add: servedCustomer_def Let_def a readCard_def)
  have b: "businessName ?c = Some (str ''Acme'')" by (simp add: servedCustomer_def Let_def)
  have t: "trim (str ''Acme'') \<noteq> []" by (simp add: trim_def str_def isWhiteSpace_def)
  from C2_action_required_worklist [OF m n] m n t show ?thesis
    unfolding cards b by simp
qed


section \<open>The most relevant card\<close>

lemma foldl_least:
  fixes key :: "'a \<Rightarrow> int"
  assumes pick: "\<And>a b. pick a b = (if key b < key a then b else a)"
  shows "foldl pick x xs \<in> set (x # xs)
         \<and> (\<forall>y\<in>set (x # xs). key (foldl pick x xs) \<le> key y)"
proof (induction xs arbitrary: x)
  case Nil
  show ?case by simp
next
  case (Cons z zs)
  from Cons [of "pick x z"] show ?case
    by (auto simp: pick split: if_splits)
qed

lemma reduce_least:
  fixes key :: "'a \<Rightarrow> int"
  assumes pick: "\<And>a b. pick a b = (if key b < key a then b else a)" and "xs \<noteq> []"
  shows "\<exists>m\<in>set xs. (\<forall>y\<in>set xs. key m \<le> key y) \<and> foldl pick (hd xs) (tl xs) = m"
proof -
  from assms(2) obtain x rest where xs: "xs = x # rest" by (cases xs) auto
  from foldl_least [of pick key x rest, OF pick]
  have "foldl pick x rest \<in> set (x # rest)"
    and "\<forall>y\<in>set (x # rest). key (foldl pick x rest) \<le> key y"
    by blast+
  then show ?thesis
    unfolding xs by (intro bexI [of _ "foldl pick x rest"]) simp_all
qed

lemma mostRecent_least:
  assumes "xs \<noteq> []"
  shows "\<exists>m\<in>set xs. (\<forall>y\<in>set xs. \<bar>daysUntil m\<bar> \<le> \<bar>daysUntil y\<bar>)
           \<and> foldl mostRecentOf (hd xs) (tl xs) = m"
  by (rule reduce_least [where key = "\<lambda>c. \<bar>daysUntil c\<bar>"])
     (simp_all add: mostRecentOf_def assms)

lemma soonest_least:
  assumes "xs \<noteq> []"
  shows "\<exists>m\<in>set xs. (\<forall>y\<in>set xs. daysUntil m \<le> daysUntil y)
           \<and> foldl soonestOf (hd xs) (tl xs) = m"
  by (rule reduce_least [where key = daysUntil]) (simp_all add: soonestOf_def assms)

text \<open>
  Claim C7, as stated, fails: a customer whose only card has status \<open>no-expiration\<close> has
  no expired, no expiring-soon and no active card, and the outcome is the plain
  \<open>Active\<close> line, not the no-payment-method one.
\<close>

theorem C7_counterexample:
  "statusText (getCardStatus id
      \<lparr>businessName = None, customerSince_api = None, totalCards_api = 1,
        hasExpired = False, hasExpiringSoon = False,
        cards_api = Some [\<lparr>card_api = None, status_api = str ''no-expiration'',
                           daysUntil = 999999\<rparr>]\<rparr>) = str ''Active''
   \<and> str ''Active'' \<noteq> str ''NO PAYMENT METHOD''
   \<and> str ''no-expiration'' \<noteq> str ''expired''
   \<and> str ''no-expiration'' \<noteq> str ''expiring-soon''
   \<and> str ''no-expiration'' \<noteq> str ''valid''
   \<and> str ''no-expiration'' \<noteq> str ''active''"
  by (simp add: getCardStatus_def str_def)

text \<open>
  Claim C7, amended. If expired cards exist, the line shows an expired card whose days
  are least in absolute value; otherwise, if expiring-soon cards exist, one with the
  fewest days; otherwise, if cards of status valid or active exist, one of them with the
  fewest days; a customer with no cards gets the no-payment-method line; and a customer
  with cards of which none is expired, expiring-soon, valid or active gets the plain
  \<open>Active\<close> line without a card.
\<close>

theorem C7_most_relevant_card:
  fixes customer :: ListedCustomer and t :: "jsstring \<Rightarrow> jsstring"
  defines "cs \<equiv> (case cards_api customer of None \<Rightarrow> [] | Some l \<Rightarrow> l)"
  defines "expiredCards \<equiv> filter (\<lambda>c. status_api c = str ''expired'') cs"
    and "soonCards \<equiv> filter (\<lambda>c. status_api c = str ''expiring-soon'') cs"
    and "activeCards \<equiv>
           filter (\<lambda>c. status_api c = str ''valid'' \<or> status_api c = str ''active'') cs"
  shows "(expiredCards \<noteq> [] \<longrightarrow>
            (\<exists>m\<in>set expiredCards.
               (\<forall>y\<in>set expiredCards. \<bar>daysUntil m\<bar> \<le> \<bar>daysUntil y\<bar>)
               \<and> getCardStatus t customer = cardLine t (str ''EXPIRED'') m))
       \<and> (expiredCards = [] \<and> soonCards \<noteq> [] \<longrightarrow>
            (\<exists>m\<in>set soonCards.
               (\<forall>y\<in>set soonCards. daysUntil m \<le> daysUntil y)
               \<and> getCardStatus t customer = cardLine t (str ''EXPIRING'') m))
       \<and> (expiredCards = [] \<and> soonCards = [] \<and> activeCards \<noteq> [] \<longrightarrow>
            (\<exists>m\<in>set activeCards.
               (\<forall>y\<in>set activeCards. daysUntil m \<le> daysUntil y)
               \<and> getCardStatus t customer = cardLine t (str ''Active'') m))
       \<and> (cs = [] \<longrightarrow>
            getCardStatus t customer =
              \<lparr>statusText = t (str ''NO PAYMENT METHOD''), cardNumber = [], expiry = []\<rparr>)
       \<and> (cs \<noteq> [] \<and> expiredCards = [] \<and> soonCards = [] \<and> activeCards = [] \<longrightarrow>
            getCardStatus t customer =
              \<lparr>statusText = t (str ''Active''), cardNumber = [], expiry = []\<rparr>)"
proof (intro conjI impI)
  assume "expiredCards \<noteq> []"
  from mostRecent_least [OF this] this
  show "\<exists>m\<in>set expiredCards.
               (\<forall>y\<in>set expiredCards. \<bar>daysUntil m\<bar> \<le> \<bar>daysUntil y\<bar>)
               \<and> getCardStatus t customer = cardLine t (str ''EXPIRED'') m"
    by (auto simp: getCardStatus_def Let_def expiredCards_def cs_def)
next
  assume a: "expiredCards = [] \<and> soonCards \<noteq> []"
  then have "soonCards \<noteq> []" by simp
  from soonest_least [OF this] a
  show "\<exists>m\<in>set soonCards.
               (\<forall>y\<in>set soonCards. daysUntil m \<le> daysUntil y)
               \<and> getCardStatus t customer = cardLine t (str ''EXPIRING'') m"
    by (auto simp: getCardStatus_def Let_def expiredCards_def soonCards_def cs_def)
next
  assume a: "expiredCards = [] \<and> soonCards = [] \<and> activeCards \<noteq> []"
  then have ne: "activeCards \<noteq> []" by simp
  then have "cs \<noteq> []" by (auto simp: activeCards_def)
  with soonest_least [OF ne] a
  show "\<exists>m\<in>set activeCards.
               (\<forall>y\<in>set activeCards. daysUntil m \<le> daysUntil y)
               \<and> getCardStatus t customer = cardLine t (str ''Active'') m"
    by (auto simp: getCardStatus_def Let_def expiredCards_def soonCards_def activeCards_def
        cs_def)
next
  assume "cs = []"
  then show "getCardStatus t customer =
              \<lparr>statusText = t (str ''NO PAYMENT METHOD''), cardNumber = [], expiry = []\<rparr>"
    by (simp add: getCardStatus_def Let_def cs_def)
next
  assume "cs \<noteq> [] \<and> expiredCards = [] \<and> soonCards = [] \<and> activeCards = []"
  then show "getCardStatus t customer =
              \<lparr>statusText = t (str ''Active''), cardNumber = [], expiry = []\<rparr>"
    by (simp add: getCardStatus_def Let_def expiredCards_def soonCards_def activeCards_def
        cs_def)
qed

theorem C7_most_relevant_card_witness:
  "getCardStatus id
     \<lparr>businessName = None, customerSince_api = None, totalCards_api = 3,
       hasExpired = True, hasExpiringSoon = True,
       cards_api = Some [\<lparr>card_api = None, status_api = str ''expired'', daysUntil = - 400\<rparr>,
                         \<lparr>card_api = None, status_api = str ''expired'', daysUntil = - 40\<rparr>,
                         \<lparr>card_api = None, status_api = str ''expiring-soon'', daysUntil = 10\<rparr>]\<rparr>
   = cardLine id (str ''EXPIRED'')
       \<lparr>card_api = None, status_api = str ''expired'', daysUntil = - 40\<rparr>"
proof -
  let ?c = "\<lparr>businessName = None, customerSince_api = None, totalCards_api = 3,
       hasExpired = True, hasExpiringSoon = True,
       cards_api = Some [\<lparr>card_api = None, status_api = str ''expired'', daysUntil = - 400\<rparr>,
                         \<lparr>card_api = None, status_api = str ''expired'', daysUntil = - 40\<rparr>,
                         \<lparr>card_api = None, status_api = str ''expiring-soon'', daysUntil = 10\<rparr>]\<rparr>"
  have ne: "str ''expiring-soon'' \<noteq> str ''expired''" by (simp add: str_def)
  from C7_most_relevant_card [of ?c id, THEN conjunct1] ne
  show ?thesis by auto
qed

end
